theory Spec2Isabelle
  imports Complex_Main "HOL-Library.AList"
begin

section \<open>Text primitives\<close>

text \<open>
  Labels are Python \<open>str\<close> values. They are modelled as \<open>string\<close>, one \<open>char\<close> per
  ASCII character; the character classes below are the ASCII part of the ones Python
  uses (\<open>str.isspace\<close> and the regular-expression classes \<open>\s\<close> and \<open>\w\<close>), and a
  character above 127 belongs to none of them. The em dash and the en dash of the
  punctuation class of \<open>normalize_label\<close> are outside this alphabet.
\<close>

definition is_space :: "char \<Rightarrow> bool" where
  "is_space c \<longleftrightarrow>
     (let n = (of_char c :: nat) in (9 \<le> n \<and> n \<le> 13) \<or> (28 \<le> n \<and> n \<le> 32))"

definition is_upper :: "char \<Rightarrow> bool" where
  "is_upper c \<longleftrightarrow> (let n = (of_char c :: nat) in 65 \<le> n \<and> n \<le> 90)"

definition is_lower :: "char \<Rightarrow> bool" where
  "is_lower c \<longleftrightarrow> (let n = (of_char c :: nat) in 97 \<le> n \<and> n \<le> 122)"

definition is_digit :: "char \<Rightarrow> bool" where
  "is_digit c \<longleftrightarrow> (let n = (of_char c :: nat) in 48 \<le> n \<and> n \<le> 57)"

definition is_word :: "char \<Rightarrow> bool" where
  "is_word c \<longleftrightarrow> is_upper c \<or> is_lower c \<or> is_digit c \<or> c = CHR ''_''"

definition lower_char :: "char \<Rightarrow> char" where
  "lower_char c = (if is_upper c then char_of ((of_char c :: nat) + 32) else c)"

definition upper_char :: "char \<Rightarrow> char" where
  "upper_char c = (if is_lower c then char_of ((of_char c :: nat) - 32) else c)"

definition py_lower :: "string \<Rightarrow> string" where
  "py_lower s = map lower_char s"

definition py_upper :: "string \<Rightarrow> string" where
  "py_upper s = map upper_char s"

definition py_strip :: "string \<Rightarrow> string" where
  "py_strip s = rev (dropWhile is_space (rev (dropWhile is_space s)))"

section \<open>Regular expressions of the rule table\<close>

text \<open>
  Every synonym pattern of \<open>normalize_label\<close> has the shape \<open>\b ... \b\<close> around a
  sequence of literal characters and, in the last rule, \<open>\s+\<close>. An \<open>atom\<close> is one
  element of that sequence. \<open>\s+\<close> is followed by a literal that is not white space in
  every pattern, so the longest run of white space is the only way it can match.
\<close>

datatype atom = Lit char | WS1

definition lit :: "string \<Rightarrow> atom list" where
  "lit s = map Lit s"

fun hd_opt :: "string \<Rightarrow> char option" where
  "hd_opt [] = None"
| "hd_opt (c # cs) = Some c"

fun word_opt :: "char option \<Rightarrow> bool" where
  "word_opt None = False"
| "word_opt (Some c) = is_word c"

definition is_boundary :: "char option \<Rightarrow> char option \<Rightarrow> bool" where
  "is_boundary prev nxt \<longleftrightarrow> word_opt prev \<noteq> word_opt nxt"

text \<open>
  \<open>match_atoms p prev s\<close> matches the atoms at the front of \<open>s\<close>; it returns the last
  character consumed (\<open>prev\<close> is the character before \<open>s\<close>) and the rest of \<open>s\<close>.
\<close>

fun match_atoms :: "atom list \<Rightarrow> char option \<Rightarrow> string \<Rightarrow> (char option \<times> string) option" where
  "match_atoms [] prev s = Some (prev, s)"
| "match_atoms (Lit a # as) prev [] = None"
| "match_atoms (Lit a # as) prev (c # cs) =
     (if c = a then match_atoms as (Some c) cs else None)"
| "match_atoms (WS1 # as) prev [] = None"
| "match_atoms (WS1 # as) prev (c # cs) =
     (if is_space c
      then match_atoms as (Some (last (c # takeWhile is_space cs))) (dropWhile is_space cs)
      else None)"

definition match_at :: "atom list \<Rightarrow> char option \<Rightarrow> string \<Rightarrow> (char option \<times> string) option" where
  "match_at p prev s =
     (case match_atoms p prev s of
        None \<Rightarrow> None
      | Some (l, rest) \<Rightarrow>
          if is_boundary prev (hd_opt s) \<and> is_boundary l (hd_opt rest) then Some (l, rest)
          else None)"

text \<open>
  \<open>re.sub(pat, rep, s)\<close>: the leftmost matches, left to right, none overlapping. After
  a match the scan goes on behind it; \<open>prev\<close> stays a character of the input, never of
  the replacement. The test on the lengths holds for every pattern that is not empty.
\<close>

function re_sub :: "atom list \<Rightarrow> string \<Rightarrow> char option \<Rightarrow> string \<Rightarrow> string" where
  "re_sub p rep prev [] = []"
| "re_sub p rep prev (c # cs) =
     (case match_at p prev (c # cs) of
        None \<Rightarrow> c # re_sub p rep (Some c) cs
      | Some (l, rest) \<Rightarrow>
          if length rest < Suc (length cs) then rep @ re_sub p rep l rest
          else c # re_sub p rep (Some c) cs)"
  by pat_completeness auto
termination
  by (relation "measure (\<lambda>(p, rep, prev, s). length s)") auto

text \<open>\<open>re.sub(r'\s+', ' ', s)\<close>: every run of white space becomes one blank.\<close>

function collapse_ws :: "string \<Rightarrow> string" where
  "collapse_ws [] = []"
| "collapse_ws (c # cs) =
     (if is_space c then CHR '' '' # collapse_ws (dropWhile is_space cs)
      else c # collapse_ws cs)"
  by pat_completeness auto
termination
  by (relation "measure length") (auto simp: length_dropWhile_le less_Suc_eq_le)

section \<open>normalize\_label\<close>

definition is_punct :: "char \<Rightarrow> bool" where
  "is_punct c \<longleftrightarrow> c \<in> set ''/,()-:''"

definition sub_punct :: "string \<Rightarrow> string" where
  "sub_punct s = map (\<lambda>c. if is_punct c then CHR '' '' else c) s"

text \<open>The rule table, in the order of the source's dictionary.\<close>

definition synonyms :: "(atom list \<times> string) list" where
  "synonyms =
    [(lit ''industrial rent'', ''rental income''),
     (lit ''retail rental income'', ''rental income''),
     (lit ''office rent'', ''rental income''),
     (lit ''rental revenue'', ''rental income''),
     (lit ''rental income'', ''rental income''),
     (lit ''lease - cp rail'', ''rent''),
     (lit ''merchandise revenue'', ''merchandise income''),
     (lit ''merchandise income'', ''merchandise income''),
     (lit ''insurance revenue'', ''insurance income''),
     (lit ''insurance income'', ''insurance income''),
     (lit ''truck rental'', ''truck rental''),
     (lit ''uhaul'', ''truck rental''),
     (lit ''bad debt'', ''bad debt''),
     (lit ''bad debts'', ''bad debt''),
     (lit ''office supplies'', ''office''),
     (lit ''professional fees'', ''professional''),
     (lit ''property mgt. fee'', ''management fee''),
     (lit ''management fee'', ''management fee''),
     (lit ''amortization/finance cost'', ''amortization''),
     (lit ''amortization/finance costs'', ''amortization''),
     (lit ''amortization'', ''amortization''),
     (lit ''depreciation'', ''depreciation''),
     (lit ''mortgage interest'', ''mortgage interest''),
     (lit ''mortgage loan interest'', ''mortgage interest''),
     (lit ''legal fee'', ''legal fees''),
     (lit ''legal fees'', ''legal fees''),
     (lit ''lease payment'', ''lease payment''),
     (lit ''gain on sale of asset'', ''gain/loss on investment''),
     (lit ''gain/loss on investment'', ''gain/loss on investment''),
     (lit ''other income'', ''other income''),
     (lit ''other revenue'', ''other income''),
     (lit ''utilities'', ''utilities''),
     (lit ''maintenance & repairs'', ''maintenance''),
     (lit ''maintenance'', ''maintenance''),
     (lit ''insurance'', ''insurance''),
     (lit ''advertising'', ''advertising''),
     (lit ''bank charges'', ''bank charges''),
     (lit ''realty taxes'', ''realty taxes''),
     (lit ''realty tax'', ''realty taxes''),
     (lit ''salaries & benefits'', ''salaries''),
     (lit ''salaries'', ''salaries''),
     (lit ''telephone'', ''telephone''),
     (lit ''office'', ''office''),
     (lit ''lease'' @ [WS1] @ lit ''cp'' @ [WS1] @ lit ''rail'', ''rent'')]"

definition apply_rule :: "atom list \<times> string \<Rightarrow> string \<Rightarrow> string" where
  "apply_rule r s = re_sub (fst r) (snd r) None s"

definition apply_synonyms :: "string \<Rightarrow> string" where
  "apply_synonyms s = fold apply_rule synonyms s"

definition clean_label :: "string \<Rightarrow> string" where
  "clean_label raw = collapse_ws (sub_punct (py_strip (py_lower raw)))"

definition normalize_label :: "string \<Rightarrow> string" where
  "normalize_label raw =
     (if raw = [] then [] else py_strip (apply_synonyms (clean_label raw)))"

section \<open>Cells, worksheets and errors\<close>

text \<open>
  A cell of a workbook holds nothing, a text or a number (\<open>int\<close> and \<open>float\<close> are
  one case here: amounts are exact rationals). An exception of the source is a value of
  \<open>py_error\<close>.
\<close>

datatype cellv = CNone | CStr string | CNum rat

datatype py_error =
    AttributeError | TypeError | ZeroDivisionError | KeyError | IndexError
  | ValueError string | PyException string

text \<open>Python's truth value of a cell: \<open>None\<close>, the empty text and zero are false.\<close>

fun truthy :: "cellv \<Rightarrow> bool" where
  "truthy CNone = False"
| "truthy (CStr s) = (s \<noteq> [])"
| "truthy (CNum x) = (x \<noteq> 0)"

text \<open>
  An openpyxl worksheet: rows and columns count from 1; a cell has a value and, once
  filled, the colour of its solid fill.
\<close>

record worksheet =
  max_row :: nat
  max_column :: nat
  cell_value :: "nat \<Rightarrow> nat \<Rightarrow> cellv"
  cell_fill :: "nat \<Rightarrow> nat \<Rightarrow> string option"

text \<open>\<open>(cell.value or "").strip()\<close>: a number that is not zero has no \<open>strip\<close>.\<close>

fun stripped_text :: "cellv \<Rightarrow> py_error + string" where
  "stripped_text CNone = Inr []"
| "stripped_text (CStr s) = Inr (py_strip s)"
| "stripped_text (CNum x) = (if x = 0 then Inr [] else Inl AttributeError)"

text \<open>
  \<open>normalize_label(cell)\<close> on a cell value: a false value gives the empty label, a
  number goes through \<open>str\<close>. Python's \<open>str\<close> on numbers is the parameter \<open>num_str\<close>.
\<close>

fun normalize_cell :: "(rat \<Rightarrow> string) \<Rightarrow> cellv \<Rightarrow> string" where
  "normalize_cell num_str CNone = []"
| "normalize_cell num_str (CStr s) = normalize_label s"
| "normalize_cell num_str (CNum x) = (if x = 0 then [] else normalize_label (num_str x))"

text \<open>
  \<open>re.search(pat, s, re.IGNORECASE)\<close> for a pattern \<open>\b ... \b\<close> of lower-case
  literals: a match at some position of the lower-cased text.
\<close>

fun re_search :: "atom list \<Rightarrow> char option \<Rightarrow> string \<Rightarrow> bool" where
  "re_search p prev [] = (match_at p prev [] \<noteq> None)"
| "re_search p prev (c # cs) = (match_at p prev (c # cs) \<noteq> None \<or> re_search p (Some c) cs)"

definition search_icase :: "string \<Rightarrow> string \<Rightarrow> bool" where
  "search_icase w s = re_search (lit w) None (py_lower s)"

section \<open>find\_anchor\_rows\<close>

text \<open>
  \<open>re.compile(r'^\s*revenue\s*$', re.IGNORECASE).match(val)\<close>: the text is the word,
  in any letter case, between two runs of white space.
\<close>

definition header_match :: "string \<Rightarrow> string \<Rightarrow> bool" where
  "header_match w val \<longleftrightarrow> py_lower (py_strip val) = w"

record anchors =
  rev_start :: "nat option"
  exp_start :: "nat option"
  inc_start :: "nat option"

definition no_anchors :: anchors where
  "no_anchors = \<lparr>rev_start = None, exp_start = None, inc_start = None\<rparr>"

text \<open>The truth value of an anchor: set, and not the number zero.\<close>

fun anchor_true :: "nat option \<Rightarrow> bool" where
  "anchor_true None = False"
| "anchor_true (Some n) = (n \<noteq> 0)"

definition header_step :: "string \<Rightarrow> nat \<Rightarrow> anchors \<Rightarrow> anchors" where
  "header_step val row a =
     (if rev_start a = None \<and> header_match ''revenue'' val then a\<lparr>rev_start := Some row\<rparr>
      else if exp_start a = None \<and> header_match ''expenses'' val then a\<lparr>exp_start := Some row\<rparr>
      else if inc_start a = None \<and> header_match ''income'' val then a\<lparr>inc_start := Some row\<rparr>
      else a)"

text \<open>The first loop: one pass over the rows, left as soon as the three anchors are set.\<close>

fun scan_headers :: "worksheet \<Rightarrow> nat list \<Rightarrow> anchors \<Rightarrow> py_error + anchors" where
  "scan_headers ws [] a = Inr a"
| "scan_headers ws (row # rows) a =
     (case stripped_text (cell_value ws row 1) of
        Inl e \<Rightarrow> Inl e
      | Inr val \<Rightarrow>
          (let a' = header_step val row a
           in if anchor_true (rev_start a') \<and> anchor_true (exp_start a') \<and> anchor_true (inc_start a')
              then Inr a' else scan_headers ws rows a'))"

text \<open>
  The fallback loops: the first row of the range whose normalized label is the sentinel,
  and the anchor one row above it, not before \<open>lo\<close>.
\<close>

definition fallback_anchor ::
  "(rat \<Rightarrow> string) \<Rightarrow> worksheet \<Rightarrow> string \<Rightarrow> nat \<Rightarrow> nat \<Rightarrow> nat option" where
  "fallback_anchor num_str ws sentinel first lo =
     (case find (\<lambda>r. normalize_cell num_str (cell_value ws r 1) = sentinel)
             [first..<Suc (max_row ws)] of
        None \<Rightarrow> None
      | Some r \<Rightarrow> Some (max (r - 1) lo))"

definition fallback_rev :: "(rat \<Rightarrow> string) \<Rightarrow> worksheet \<Rightarrow> anchors \<Rightarrow> anchors" where
  "fallback_rev num_str ws a =
     (if rev_start a = None
      then a\<lparr>rev_start := fallback_anchor num_str ws ''rental income'' 1 1\<rparr> else a)"

definition fallback_exp :: "(rat \<Rightarrow> string) \<Rightarrow> worksheet \<Rightarrow> anchors \<Rightarrow> anchors" where
  "fallback_exp num_str ws a =
     (case (exp_start a, rev_start a) of
        (None, Some rv) \<Rightarrow>
          a\<lparr>exp_start := fallback_anchor num_str ws ''advertising'' (rv + 1) (rv + 1)\<rparr>
      | _ \<Rightarrow> a)"

definition fallback_inc :: "(rat \<Rightarrow> string) \<Rightarrow> worksheet \<Rightarrow> anchors \<Rightarrow> anchors" where
  "fallback_inc num_str ws a =
     (case (inc_start a, exp_start a) of
        (None, Some ex) \<Rightarrow>
          a\<lparr>inc_start := fallback_anchor num_str ws ''management fee'' (ex + 1) (ex + 1)\<rparr>
      | _ \<Rightarrow> a)"

definition find_anchor_rows :: "(rat \<Rightarrow> string) \<Rightarrow> worksheet \<Rightarrow> py_error + anchors" where
  "find_anchor_rows num_str ws =
     (case scan_headers ws [1..<Suc (max_row ws)] no_anchors of
        Inl e \<Rightarrow> Inl e
      | Inr a \<Rightarrow> Inr (fallback_inc num_str ws (fallback_exp num_str ws (fallback_rev num_str ws a))))"

text \<open>A worksheet given by its rows, for concrete inputs; it has no fills.\<close>

definition sheet_of :: "cellv list list \<Rightarrow> worksheet" where
  "sheet_of rows =
     \<lparr>max_row = max 1 (length rows),
      max_column = max 1 (fold max (map length rows) 0),
      cell_value = (\<lambda>r c. if 1 \<le> r \<and> r \<le> length rows \<and> 1 \<le> c \<and> c \<le> length (rows ! (r - 1))
                          then rows ! (r - 1) ! (c - 1) else CNone),
      cell_fill = (\<lambda>r c. None)\<rparr>"

section \<open>parse\_income\_sheet\_ytd\<close>

text \<open>\<open>re.search(r'y\.?t\.?d', cell, re.IGNORECASE)\<close>, on the lower-cased text.\<close>

fun skip_dot :: "string \<Rightarrow> string" where
  "skip_dot [] = []"
| "skip_dot (c # cs) = (if c = CHR ''.'' then cs else c # cs)"

fun ytd_at :: "string \<Rightarrow> bool" where
  "ytd_at [] = False"
| "ytd_at (c # cs) =
     (c = CHR ''y'' \<and>
      (case skip_dot cs of
         [] \<Rightarrow> False
       | t # ts \<Rightarrow> t = CHR ''t'' \<and> (case skip_dot ts of [] \<Rightarrow> False | d # ds \<Rightarrow> d = CHR ''d'')))"

fun ytd_search :: "string \<Rightarrow> bool" where
  "ytd_search [] = False"
| "ytd_search (c # cs) = (ytd_at (c # cs) \<or> ytd_search cs)"

fun is_ytd_header :: "cellv \<Rightarrow> bool" where
  "is_ytd_header (CStr s) = ytd_search (py_lower s)"
| "is_ytd_header v = False"

definition find_ytd_column :: "worksheet \<Rightarrow> nat" where
  "find_ytd_column ws =
     (case find (\<lambda>(r, c). is_ytd_header (cell_value ws r c))
             (List.product [1..<6] [1..<Suc (max_column ws)]) of
        None \<Rightarrow> 8
      | Some (r, c) \<Rightarrow> c)"

text \<open>
  A label-to-amount dictionary keeps its keys in insertion order (the order decides ties
  of the fuzzy matcher): an association list, updated in place or extended at the end.
\<close>

type_synonym amounts = "(string \<times> rat) list"

definition dict_get :: "amounts \<Rightarrow> string \<Rightarrow> rat" where
  "dict_get d k = (case map_of d k of None \<Rightarrow> 0 | Some v \<Rightarrow> v)"

text \<open>
  \<open>d.get(key, 0) + (cell.value or 0)\<close>: a text that is not empty cannot be added to a
  number.
\<close>

fun add_value :: "rat \<Rightarrow> cellv \<Rightarrow> py_error + rat" where
  "add_value acc CNone = Inr acc"
| "add_value acc (CStr s) = (if s = [] then Inr acc else Inl TypeError)"
| "add_value acc (CNum x) = Inr (acc + x)"

definition accumulate :: "amounts \<Rightarrow> string \<Rightarrow> cellv \<Rightarrow> py_error + amounts" where
  "accumulate d key v =
     (case add_value (dict_get d key) v of
        Inl e \<Rightarrow> Inl e
      | Inr v' \<Rightarrow> Inr (AList.update key v' d))"

text \<open>\<open>str(raw_label)\<close> of a label cell that is not false.\<close>

fun label_text :: "(rat \<Rightarrow> string) \<Rightarrow> cellv \<Rightarrow> string option" where
  "label_text num_str CNone = None"
| "label_text num_str (CStr s) = (if s = [] then None else Some s)"
| "label_text num_str (CNum x) = (if x = 0 then None else Some (num_str x))"

text \<open>The revenue and the expenses band: a \<open>for\<close> loop that skips rows.\<close>

fun parse_band ::
  "(rat \<Rightarrow> string) \<Rightarrow> worksheet \<Rightarrow> string \<Rightarrow> nat \<Rightarrow> nat list \<Rightarrow> amounts \<Rightarrow> py_error + amounts" where
  "parse_band num_str ws sentinel col [] d = Inr d"
| "parse_band num_str ws sentinel col (r # rs) d =
     (case label_text num_str (cell_value ws r 1) of
        None \<Rightarrow> parse_band num_str ws sentinel col rs d
      | Some txt \<Rightarrow>
          if search_icase sentinel txt then parse_band num_str ws sentinel col rs d
          else (case accumulate d (normalize_label txt) (cell_value ws r col) of
                  Inl e \<Rightarrow> Inl e
                | Inr d' \<Rightarrow> parse_band num_str ws sentinel col rs d'))"

text \<open>The income band: a \<open>while\<close> loop that stops at the first terminating row.\<close>

fun parse_income_band ::
  "(rat \<Rightarrow> string) \<Rightarrow> worksheet \<Rightarrow> nat \<Rightarrow> nat list \<Rightarrow> amounts \<Rightarrow> py_error + amounts" where
  "parse_income_band num_str ws col [] d = Inr d"
| "parse_income_band num_str ws col (r # rs) d =
     (case label_text num_str (cell_value ws r 1) of
        None \<Rightarrow> Inr d
      | Some txt \<Rightarrow>
          if search_icase ''total'' txt \<or> search_icase ''net rental income'' txt then Inr d
          else (case accumulate d (normalize_label txt) (cell_value ws r col) of
                  Inl e \<Rightarrow> Inl e
                | Inr d' \<Rightarrow> parse_income_band num_str ws col rs d'))"

definition parse_income_sheet_ytd ::
  "(rat \<Rightarrow> string) \<Rightarrow> worksheet \<Rightarrow> py_error + (amounts \<times> amounts \<times> amounts)" where
  "parse_income_sheet_ytd num_str ws =
     (case find_anchor_rows num_str ws of
        Inl e \<Rightarrow> Inl e
      | Inr a \<Rightarrow>
          (case (rev_start a, exp_start a, inc_start a) of
             (Some rv, Some ex, Some ic) \<Rightarrow>
               (let ytd_col = find_ytd_column ws in
                case parse_band num_str ws ''total revenue'' ytd_col [rv + 1..<ex] [] of
                  Inl e \<Rightarrow> Inl e
                | Inr rev_dict \<Rightarrow>
                    (case parse_band num_str ws ''total operating expenses'' ytd_col
                            [ex + 1..<ic] [] of
                       Inl e \<Rightarrow> Inl e
                     | Inr exp_dict \<Rightarrow>
                         (case parse_income_band num_str ws ytd_col
                                 [ic + 1..<Suc (max_row ws)] [] of
                            Inl e \<Rightarrow> Inl e
                          | Inr inc_dict \<Rightarrow> Inr (rev_dict, exp_dict, inc_dict))))
           | _ \<Rightarrow> Inr ([], [], [])))"

text \<open>
  The accumulation in the words of the specification. A band row is kept when its label
  is not empty and is not the band's total row; the key of a row is its normalized
  label; a missing value counts as zero. \<open>band_total\<close> is the sum of the amounts of
  the kept rows with a given key, and nothing when there is no such row.
\<close>

definition kept_row :: "(rat \<Rightarrow> string) \<Rightarrow> worksheet \<Rightarrow> string \<Rightarrow> nat \<Rightarrow> bool" where
  "kept_row num_str ws sentinel r =
     (case label_text num_str (cell_value ws r 1) of
        None \<Rightarrow> False
      | Some txt \<Rightarrow> \<not> search_icase sentinel txt)"

definition row_key :: "(rat \<Rightarrow> string) \<Rightarrow> worksheet \<Rightarrow> nat \<Rightarrow> string" where
  "row_key num_str ws r =
     (case label_text num_str (cell_value ws r 1) of
        None \<Rightarrow> []
      | Some txt \<Rightarrow> normalize_label txt)"

fun cell_amount :: "cellv \<Rightarrow> rat" where
  "cell_amount (CNum x) = x"
| "cell_amount v = 0"

fun is_text :: "cellv \<Rightarrow> bool" where
  "is_text (CStr s) = (s \<noteq> [])"
| "is_text v = False"

definition band_total ::
  "(rat \<Rightarrow> string) \<Rightarrow> worksheet \<Rightarrow> nat \<Rightarrow> nat list \<Rightarrow> string \<Rightarrow> rat option" where
  "band_total num_str ws col rows k =
     (let rs = filter (\<lambda>r. row_key num_str ws r = k) rows
      in if rs = [] then None
         else Some (sum_list (map (\<lambda>r. cell_amount (cell_value ws r col)) rs)))"

text \<open>The rows of the income band that are read: those before the first terminating row.\<close>

definition income_stop :: "(rat \<Rightarrow> string) \<Rightarrow> worksheet \<Rightarrow> nat \<Rightarrow> bool" where
  "income_stop num_str ws r =
     (case label_text num_str (cell_value ws r 1) of
        None \<Rightarrow> True
      | Some txt \<Rightarrow> search_icase ''total'' txt \<or> search_icase ''net rental income'' txt)"

definition income_rows :: "(rat \<Rightarrow> string) \<Rightarrow> worksheet \<Rightarrow> nat list \<Rightarrow> nat list" where
  "income_rows num_str ws rows = takeWhile (\<lambda>r. \<not> income_stop num_str ws r) rows"

definition band_rows ::
  "(rat \<Rightarrow> string) \<Rightarrow> worksheet \<Rightarrow> string \<Rightarrow> nat \<Rightarrow> nat \<Rightarrow> nat list" where
  "band_rows num_str ws sentinel lo hi = filter (kept_row num_str ws sentinel) [lo + 1..<hi]"

definition income_band_rows :: "(rat \<Rightarrow> string) \<Rightarrow> worksheet \<Rightarrow> nat \<Rightarrow> nat list" where
  "income_band_rows num_str ws ic = income_rows num_str ws [ic + 1..<Suc (max_row ws)]"

text \<open>
  The dictionary \<open>d\<close> after more rows have been accumulated into it, \<open>f\<close> being the
  totals of those rows.
\<close>

definition merged :: "amounts \<Rightarrow> (string \<Rightarrow> rat option) \<Rightarrow> string \<Rightarrow> rat option" where
  "merged d f k = (case f k of None \<Rightarrow> map_of d k | Some t \<Rightarrow> Some (dict_get d k + t))"

text \<open>A small income sheet: a YTD header, two bands with amounts and a missing value.\<close>

definition example_income_sheet :: worksheet where
  "example_income_sheet =
     sheet_of [[CStr ''Revenue'', CStr ''Y.T.D.''],
               [CStr ''Industrial Rent'', CNum 10],
               [CStr ''Office Rent'', CNum 5],
               [CStr ''Total Revenue'', CNum 15],
               [CStr ''Expenses''],
               [CStr ''Advertising''],
               [CStr ''Income''],
               [CStr ''Management Fee'', CNum 7],
               [CStr ''Net rental income'', CNum 7]]"

section \<open>match\_and\_write\<close>

text \<open>
  \<open>process.extractOne(key, candidates, scorer=fuzz.token_sort_ratio)\<close> belongs to the
  fuzzy-matching library and is a parameter: it returns the best candidate with its
  score, an integer from 0 to 100, or nothing. The threshold is the global
  \<open>fuzzy_threshold\<close>, an integer that the slider takes from 50 to 100.
\<close>

type_synonym extract_one = "string \<Rightarrow> string list \<Rightarrow> (string \<times> int) option"

text \<open>\<open>int(x)\<close> on a number: the integer part, towards zero.\<close>

definition py_int :: "rat \<Rightarrow> int" where
  "py_int x = (if 0 \<le> x then \<lfloor>x\<rfloor> else \<lceil>x\<rceil>)"

text \<open>\<open>f"{green:02X}"\<close>: upper-case hexadecimal digits, padded with zeros to two places.\<close>

definition hex_digit :: "nat \<Rightarrow> char" where
  "hex_digit d = ''0123456789ABCDEF'' ! d"

fun hex_nat :: "nat \<Rightarrow> string" where
  "hex_nat n = (if n < 16 then [hex_digit n] else hex_nat (n div 16) @ [hex_digit (n mod 16)])"

declare hex_nat.simps [simp del]

definition fmt_02X :: "int \<Rightarrow> string" where
  "fmt_02X g =
     (if g < 0 then CHR ''-'' # hex_nat (nat (- g))
      else (let h = hex_nat (nat g) in if length h < 2 then CHR ''0'' # h else h))"

text \<open>
  The colour of a fuzzy match: \<open>ratio = (score - threshold) / (100 - threshold)\<close>,
  \<open>green = int(255 * ratio)\<close>, \<open>f"FF{green:02X}00"\<close>. The division raises when the
  threshold is 100. The quotient and the product are exact rationals here.
\<close>

definition gradient_fill :: "int \<Rightarrow> int \<Rightarrow> py_error + string" where
  "gradient_fill score threshold =
     (if 100 - threshold = 0 then Inl ZeroDivisionError
      else Inr (''FF'' @
                fmt_02X (py_int (255 * (of_int (score - threshold) / of_int (100 - threshold))))
                @ ''00''))"

definition set_value :: "worksheet \<Rightarrow> nat \<Rightarrow> nat \<Rightarrow> cellv \<Rightarrow> worksheet" where
  "set_value ws r c v = ws\<lparr>cell_value := (cell_value ws)(r := (cell_value ws r)(c := v))\<rparr>"

definition set_fill :: "worksheet \<Rightarrow> nat \<Rightarrow> nat \<Rightarrow> string \<Rightarrow> worksheet" where
  "set_fill ws r c colour =
     ws\<lparr>cell_fill := (cell_fill ws)(r := (cell_fill ws r)(c := Some colour))\<rparr>"

text \<open>
  One turn of the loop over the template rows. The result is the exception raised, if
  any, and the worksheet as the turn leaves it: the value of a fuzzy match is written
  before its colour is computed.
\<close>

definition write_row ::
  "extract_one \<Rightarrow> int \<Rightarrow> amounts \<Rightarrow> nat \<Rightarrow> worksheet \<Rightarrow> nat \<Rightarrow> py_error option \<times> worksheet" where
  "write_row extractOne threshold src_dict target_col ws r =
     (case stripped_text (cell_value ws r 1) of
        Inl e \<Rightarrow> (Some e, ws)
      | Inr raw_target \<Rightarrow>
          (let key_t = normalize_label raw_target in
           if key_t = [] \<or> search_icase ''total'' raw_target then (None, ws)
           else
             (case map_of src_dict key_t of
                Some v \<Rightarrow> (None, set_value ws r target_col (CNum v))
              | None \<Rightarrow>
                  if map fst src_dict \<noteq> [] then
                    (case extractOne key_t (map fst src_dict) of
                       Some (best_match, score) \<Rightarrow>
                         if threshold \<le> score then
                           (case map_of src_dict best_match of
                              None \<Rightarrow> (Some KeyError, ws)
                            | Some val \<Rightarrow>
                                (let ws1 = set_value ws r target_col (CNum val) in
                                 case gradient_fill score threshold of
                                   Inl e \<Rightarrow> (Some e, ws1)
                                 | Inr colour \<Rightarrow> (None, set_fill ws1 r target_col colour)))
                         else (None, set_value ws r target_col (CNum 0))
                     | None \<Rightarrow> (None, set_value ws r target_col (CNum 0)))
                  else (None, set_value ws r target_col (CNum 0)))))"

fun write_rows ::
  "extract_one \<Rightarrow> int \<Rightarrow> amounts \<Rightarrow> nat \<Rightarrow> nat list \<Rightarrow> worksheet \<Rightarrow> py_error option \<times> worksheet" where
  "write_rows extractOne threshold src_dict target_col [] ws = (None, ws)"
| "write_rows extractOne threshold src_dict target_col (r # rs) ws =
     (case write_row extractOne threshold src_dict target_col ws r of
        (Some e, ws') \<Rightarrow> (Some e, ws')
      | (None, ws') \<Rightarrow> write_rows extractOne threshold src_dict target_col rs ws')"

definition match_and_write ::
  "extract_one \<Rightarrow> int \<Rightarrow> worksheet \<Rightarrow> nat \<Rightarrow> nat \<Rightarrow> amounts \<Rightarrow> nat \<Rightarrow> py_error option \<times> worksheet" where
  "match_and_write extractOne threshold ws start_row end_row src_dict target_col =
     write_rows extractOne threshold src_dict target_col [start_row..<Suc end_row] ws"

section \<open>Site resolution and the income passes\<close>

definition is_prefix :: "string \<Rightarrow> string \<Rightarrow> bool" where
  "is_prefix p s \<longleftrightarrow> take (length p) s = p"

text \<open>\<open>sub in s\<close> on texts.\<close>

fun contains :: "string \<Rightarrow> string \<Rightarrow> bool" where
  "contains sub [] = (sub = [])"
| "contains sub (c # cs) = (is_prefix sub (c # cs) \<or> contains sub cs)"

text \<open>\<open>s.replace(old, "")\<close>: every occurrence of \<open>old\<close>, left to right, is removed.\<close>

function remove_all :: "string \<Rightarrow> string \<Rightarrow> string" where
  "remove_all old [] = []"
| "remove_all old (c # cs) =
     (if old \<noteq> [] \<and> is_prefix old (c # cs) then remove_all old (drop (length old) (c # cs))
      else c # remove_all old cs)"
  by pat_completeness auto
termination
  by (relation "measure (\<lambda>(old, s). length s)") auto

text \<open>
  \<open>normalize_filename\<close>: \<open>re.sub(r'\s*\(\d+\)(?=\.xlsx)', '', filename)\<close>.
  \<open>dup_suffix_at s\<close> is the rest of \<open>s\<close> behind a match at its front.
\<close>

definition dup_suffix_at :: "string \<Rightarrow> string option" where
  "dup_suffix_at s =
     (case dropWhile is_space s of
        [] \<Rightarrow> None
      | c # r \<Rightarrow>
          if c = CHR ''('' \<and> takeWhile is_digit r \<noteq> [] then
            (case dropWhile is_digit r of
               [] \<Rightarrow> None
             | c' # r' \<Rightarrow> if c' = CHR '')'' \<and> is_prefix ''.xlsx'' r' then Some r' else None)
          else None)"

function normalize_filename :: "string \<Rightarrow> string" where
  "normalize_filename [] = []"
| "normalize_filename (c # cs) =
     (case dup_suffix_at (c # cs) of
        None \<Rightarrow> c # normalize_filename cs
      | Some rest \<Rightarrow>
          if length rest < Suc (length cs) then normalize_filename rest
          else c # normalize_filename cs)"
  by pat_completeness auto
termination
  by (relation "measure length") auto

text \<open>The alias table; \<open>year\<close> is the decimal text of \<open>file_year\<close>.\<close>

definition filename_to_header :: "string \<Rightarrow> (string \<times> string) list" where
  "filename_to_header year =
    [(''fs'' @ year @ ''Bedford.xlsx'', ''Bedford''),
     (''fs'' @ year @ ''Beechgrove.xlsx'', ''Scarborough''),
     (''fs'' @ year @ ''Bering.xlsx'', ''380 Bering''),
     (''fs'' @ year @ ''Dundas.xlsx'', ''Dundas''),
     (''fs'' @ year @ ''Eastern.xlsx'', ''Eastern''),
     (''fs'' @ year @ ''Laird.xlsx'', ''1 Laird''),
     (''fs'' @ year @ ''Laird33.xlsx'', ''33 Laird''),
     (''fs'' @ year @ ''Lakeshore.xlsx'', ''Lakeshore''),
     (''fs'' @ year @ ''Weston.xlsx'', ''207 Weston'')]"

definition resolve_site :: "string \<Rightarrow> string \<Rightarrow> string" where
  "resolve_site year filename =
     (let normalized_filename = normalize_filename filename in
      case map_of (filename_to_header year) normalized_filename of
        Some header \<Rightarrow> py_upper header
      | None \<Rightarrow>
          (let site = py_upper (remove_all (''fs'' @ year) (remove_all ''.xlsx'' normalized_filename))
           in if site = ''BEECHGROVE'' then ''SCARBOROUGH'' else site))"

text \<open>A workbook is the list of its sheets, each with its name.\<close>

type_synonym workbook = "(string \<times> worksheet) list"

definition find_income_sheet :: "workbook \<Rightarrow> worksheet option" where
  "find_income_sheet wb =
     (case find (\<lambda>(name, ws). contains ''income'' (py_lower name)) wb of
        None \<Rightarrow> None
      | Some (name, ws) \<Rightarrow> Some ws)"

text \<open>The scan of the template's header row for the site's column.\<close>

fun find_target_col :: "worksheet \<Rightarrow> nat \<Rightarrow> string \<Rightarrow> nat list \<Rightarrow> py_error + nat option" where
  "find_target_col master_ws header_row site [] = Inr None"
| "find_target_col master_ws header_row site (col # cols) =
     (case stripped_text (cell_value master_ws header_row col) of
        Inl e \<Rightarrow> Inl e
      | Inr raw_hdr \<Rightarrow>
          (let raw_hdr_upper = py_upper raw_hdr;
               hdr_stripped = dropWhile (\<lambda>c. is_digit c \<or> is_space c) raw_hdr_upper
           in if raw_hdr_upper = site \<or> hdr_stripped = site then Inr (Some col)
              else find_target_col master_ws header_row site cols))"

text \<open>\<open>for k in d: d[k] = d[k] / 2\<close>, done for a site whose name contains WESTON.\<close>

definition halve :: "amounts \<Rightarrow> amounts" where
  "halve d = map (\<lambda>(k, v). (k, v / 2)) d"

definition halve_weston :: "string \<Rightarrow> amounts \<Rightarrow> amounts" where
  "halve_weston site d = (if contains ''WESTON'' site then halve d else d)"

text \<open>The three calls of \<open>match_and_write\<close>; an exception of one ends the pass.\<close>

definition write_bands ::
  "extract_one \<Rightarrow> int \<Rightarrow> nat \<Rightarrow> nat \<times> nat \<Rightarrow> nat \<times> nat \<Rightarrow> nat \<times> nat \<Rightarrow>
   amounts \<times> amounts \<times> amounts \<Rightarrow> worksheet \<Rightarrow> py_error option \<times> worksheet" where
  "write_bands extractOne threshold target_col rev_rows exp_rows inc_rows dicts master_ws =
     (case dicts of (rev_dict, exp_dict, inc_dict) \<Rightarrow>
      case match_and_write extractOne threshold master_ws (fst rev_rows) (snd rev_rows)
             rev_dict target_col of
        (Some e, ws1) \<Rightarrow> (Some e, ws1)
      | (None, ws1) \<Rightarrow>
          (case match_and_write extractOne threshold ws1 (fst exp_rows) (snd exp_rows)
                  exp_dict target_col of
             (Some e, ws2) \<Rightarrow> (Some e, ws2)
           | (None, ws2) \<Rightarrow>
               match_and_write extractOne threshold ws2 (fst inc_rows) (snd inc_rows)
                 inc_dict target_col))"

text \<open>
  What both income passes do once the source sheet is parsed: nothing when the three
  maps are empty or the site has no column; else the amounts of a WESTON site are
  halved and the three bands are written.
\<close>

definition write_site ::
  "extract_one \<Rightarrow> int \<Rightarrow> string \<Rightarrow> string \<Rightarrow> nat \<Rightarrow>
   (worksheet \<Rightarrow> (nat \<times> nat) \<times> (nat \<times> nat) \<times> (nat \<times> nat)) \<Rightarrow>
   amounts \<times> amounts \<times> amounts \<Rightarrow> worksheet \<Rightarrow> py_error option \<times> worksheet" where
  "write_site extractOne threshold year filename header_row ranges dicts master_ws =
     (case dicts of (rev_dict, exp_dict, inc_dict) \<Rightarrow>
      if rev_dict = [] \<and> exp_dict = [] \<and> inc_dict = [] then (None, master_ws)
      else
        (let site = resolve_site year filename in
         case find_target_col master_ws header_row site [1..<Suc (max_column master_ws)] of
           Inl e \<Rightarrow> (Some e, master_ws)
         | Inr None \<Rightarrow> (None, master_ws)
         | Inr (Some target_col) \<Rightarrow>
             (case ranges master_ws of (rev_rows, exp_rows, inc_rows) \<Rightarrow>
                write_bands extractOne threshold target_col rev_rows exp_rows inc_rows
                  (halve_weston site rev_dict, halve_weston site exp_dict,
                   halve_weston site inc_dict) master_ws)))"

definition ytd_ranges :: "worksheet \<Rightarrow> (nat \<times> nat) \<times> (nat \<times> nat) \<times> (nat \<times> nat)" where
  "ytd_ranges master_ws = ((6, 16), (19, 33), (38, 46))"

definition process_one_file_ytd ::
  "(rat \<Rightarrow> string) \<Rightarrow> extract_one \<Rightarrow> int \<Rightarrow> string \<Rightarrow> workbook \<Rightarrow> string \<Rightarrow> worksheet \<Rightarrow> nat \<Rightarrow>
   py_error option \<times> worksheet" where
  "process_one_file_ytd num_str extractOne threshold year src_wb filename master_ws header_row =
     (case find_income_sheet src_wb of
        None \<Rightarrow> (None, master_ws)
      | Some src_ws \<Rightarrow>
          (case parse_income_sheet_ytd num_str src_ws of
             Inl e \<Rightarrow> (Some e, master_ws)
           | Inr dicts \<Rightarrow>
               write_site extractOne threshold year filename header_row ytd_ranges dicts master_ws))"

text \<open>
  The month pass: the month column instead of the YTD column, and template rows that
  depend on what row 53 of the template holds. Its diagnostic and logging calls change
  nothing and are left out.
\<close>

fun is_month_header :: "cellv \<Rightarrow> bool" where
  "is_month_header (CStr s) = contains ''month'' (py_lower s)"
| "is_month_header v = False"

definition find_month_column :: "worksheet \<Rightarrow> nat" where
  "find_month_column ws =
     (case find (\<lambda>(r, c). is_month_header (cell_value ws r c))
             (List.product [1..<6] [1..<Suc (max_column ws)]) of
        None \<Rightarrow> 2
      | Some (r, c) \<Rightarrow> c)"

definition parse_income_sheet_month ::
  "(rat \<Rightarrow> string) \<Rightarrow> worksheet \<Rightarrow> py_error + (amounts \<times> amounts \<times> amounts)" where
  "parse_income_sheet_month num_str ws =
     (case find_anchor_rows num_str ws of
        Inl e \<Rightarrow> Inl e
      | Inr a \<Rightarrow>
          (case (rev_start a, exp_start a, inc_start a) of
             (Some rv, Some ex, Some ic) \<Rightarrow>
               (let month_col = find_month_column ws in
                case parse_band num_str ws ''total revenue'' month_col [rv + 1..<ex] [] of
                  Inl e \<Rightarrow> Inl e
                | Inr rev_dict \<Rightarrow>
                    (case parse_band num_str ws ''total operating expenses'' month_col
                            [ex + 1..<ic] [] of
                       Inl e \<Rightarrow> Inl e
                     | Inr exp_dict \<Rightarrow>
                         (case parse_income_band num_str ws month_col
                                 [ic + 1..<Suc (max_row ws)] [] of
                            Inl e \<Rightarrow> Inl e
                          | Inr inc_dict \<Rightarrow> Inr (rev_dict, exp_dict, inc_dict))))
           | _ \<Rightarrow> Inr ([], [], [])))"

definition month_ranges ::
  "(rat \<Rightarrow> string) \<Rightarrow> worksheet \<Rightarrow> (nat \<times> nat) \<times> (nat \<times> nat) \<times> (nat \<times> nat)" where
  "month_ranges num_str master_ws =
     (let first_revenue_row =
            (case label_text num_str (cell_value master_ws 53 1) of
               None \<Rightarrow> 54
             | Some first_value \<Rightarrow>
                 if contains ''revenue'' (py_lower first_value) then 54 else 53);
          revenue_end = (if first_revenue_row = 53 then 65 else 66)
      in ((first_revenue_row, revenue_end), (67, 81), (86, 94)))"

definition process_one_file_month ::
  "(rat \<Rightarrow> string) \<Rightarrow> extract_one \<Rightarrow> int \<Rightarrow> string \<Rightarrow> workbook \<Rightarrow> string \<Rightarrow> worksheet \<Rightarrow> nat \<Rightarrow>
   py_error option \<times> worksheet" where
  "process_one_file_month num_str extractOne threshold year src_wb filename master_ws header_row =
     (case find_income_sheet src_wb of
        None \<Rightarrow> (None, master_ws)
      | Some src_ws \<Rightarrow>
          (case parse_income_sheet_month num_str src_ws of
             Inl e \<Rightarrow> (Some e, master_ws)
           | Inr dicts \<Rightarrow>
               write_site extractOne threshold year filename header_row (month_ranges num_str)
                 dicts master_ws))"

section \<open>The balance-sheet pass\<close>

text \<open>
  The writing loop of \<open>process_all_files\<close>. A summary holds the three maps of a file;
  \<open>all_summaries\<close>, \<open>col_by_entity\<close> and \<open>row_by_category\<close> are the dictionaries built
  before the loop. For the entity \<open>207 Weston\<close> the cell receives the formula
  \<open>=(amount)/2\<close>, whose value in the workbook is half the amount.
\<close>

record summary =
  assets :: amounts
  liabilities :: amounts
  equity :: amounts

definition balance_value :: "(rat \<Rightarrow> string) \<Rightarrow> string \<Rightarrow> rat \<Rightarrow> cellv" where
  "balance_value num_str entity_label amount =
     (if entity_label = ''207 Weston'' then CStr (''=('' @ num_str amount @ '')/2'')
      else CNum amount)"

fun write_categories ::
  "(rat \<Rightarrow> string) \<Rightarrow> string \<Rightarrow> nat \<Rightarrow> (string \<times> nat) list \<Rightarrow> amounts \<Rightarrow> worksheet \<Rightarrow> worksheet" where
  "write_categories num_str entity_label target_col row_by_category [] ws = ws"
| "write_categories num_str entity_label target_col row_by_category ((category, amount) # rest) ws =
     (case map_of row_by_category category of
        None \<Rightarrow> write_categories num_str entity_label target_col row_by_category rest ws
      | Some row_idx \<Rightarrow>
          write_categories num_str entity_label target_col row_by_category rest
            (set_value ws row_idx target_col (balance_value num_str entity_label amount)))"

definition write_entity ::
  "(rat \<Rightarrow> string) \<Rightarrow> (string \<times> nat) list \<Rightarrow> (string \<times> nat) list \<Rightarrow> string \<times> summary \<Rightarrow>
   worksheet \<Rightarrow> worksheet" where
  "write_entity num_str col_by_entity row_by_category entry ws =
     (case entry of (entity_label, s) \<Rightarrow>
      case map_of col_by_entity entity_label of
        None \<Rightarrow> ws
      | Some target_col \<Rightarrow>
          write_categories num_str entity_label target_col row_by_category (equity s)
            (write_categories num_str entity_label target_col row_by_category (liabilities s)
               (write_categories num_str entity_label target_col row_by_category (assets s) ws)))"

definition write_balance_sheet ::
  "(rat \<Rightarrow> string) \<Rightarrow> (string \<times> nat) list \<Rightarrow> (string \<times> nat) list \<Rightarrow> (string \<times> summary) list \<Rightarrow>
   worksheet \<Rightarrow> worksheet" where
  "write_balance_sheet num_str col_by_entity row_by_category all_summaries ws =
     fold (write_entity num_str col_by_entity row_by_category) all_summaries ws"

section \<open>What a pass leaves in a cell\<close>

text \<open>
  \<open>written_from d old new\<close>: the cell is as it was, or holds the 0 of a row without a
  match, or holds a value of the dictionary \<open>d\<close>.
\<close>

definition written_from :: "amounts \<Rightarrow> cellv \<Rightarrow> cellv \<Rightarrow> bool" where
  "written_from d old new \<longleftrightarrow>
     new = old \<or> new = CNum 0 \<or> (\<exists>k v. map_of d k = Some v \<and> new = CNum v)"

text \<open>\<open>half_of_raw dicts v\<close>: the cell value is half an amount of one of the parsed maps.\<close>

definition half_of_raw :: "amounts \<times> amounts \<times> amounts \<Rightarrow> cellv \<Rightarrow> bool" where
  "half_of_raw dicts v \<longleftrightarrow>
     (\<exists>k a. (map_of (fst dicts) k = Some a \<or> map_of (fst (snd dicts)) k = Some a
               \<or> map_of (snd (snd dicts)) k = Some a)
            \<and> v = CNum (a / 2))"

definition half_formula :: "(rat \<Rightarrow> string) \<Rightarrow> summary \<Rightarrow> cellv \<Rightarrow> bool" where
  "half_formula num_str s v \<longleftrightarrow>
     (\<exists>category amount. (category, amount) \<in> set (assets s @ liabilities s @ equity s)
        \<and> v = CStr (''=('' @ num_str amount @ '')/2''))"

text \<open>
  \<open>site_cell dicts old new\<close>: what an income pass of a WESTON file may leave in a
  cell; \<open>entity_cell num_str s old new\<close>: what the balance-sheet pass may.
\<close>

definition site_cell :: "amounts \<times> amounts \<times> amounts \<Rightarrow> cellv \<Rightarrow> cellv \<Rightarrow> bool" where
  "site_cell dicts old new \<longleftrightarrow> new = old \<or> new = CNum 0 \<or> half_of_raw dicts new"

definition entity_cell :: "(rat \<Rightarrow> string) \<Rightarrow> summary \<Rightarrow> cellv \<Rightarrow> cellv \<Rightarrow> bool" where
  "entity_cell num_str s old new \<longleftrightarrow> new = old \<or> half_formula num_str s new"

text \<open>
  A template for concrete runs: the site header in row 5, a revenue label in the YTD
  block and in the month block.
\<close>

definition example_template :: worksheet where
  "example_template =
     \<lparr>max_row = 94, max_column = 2,
      cell_value = (\<lambda>r c. if r = 5 \<and> c = 2 then CStr ''207 Weston''
                          else if c = 1 \<and> (r = 6 \<or> r = 54) then CStr ''Rental Income''
                          else CNone),
      cell_fill = (\<lambda>r c. None)\<rparr>"

definition example_summary :: summary where
  "example_summary = \<lparr>assets = [(''CASH'', 100)], liabilities = [], equity = []\<rparr>"

section \<open>parse\_section\<close>

text \<open>
  A sheet read without header is a grid: a list of rows, each a list of cells, with
  rows and columns counted from 0. A missing value (NaN) is \<open>CNone\<close>. Reading a column
  that a row does not have raises \<open>KeyError\<close>.
\<close>

type_synonym grid = "cellv list list"

definition cell_at :: "cellv list \<Rightarrow> nat \<Rightarrow> py_error + cellv" where
  "cell_at row c = (if c < length row then Inr (row ! c) else Inl KeyError)"

text \<open>The values \<open>x\<close> of a row with \<open>isinstance(x, (int, float)) and not pd.isna(x)\<close>.\<close>

fun numbers_of :: "cellv list \<Rightarrow> rat list" where
  "numbers_of [] = []"
| "numbers_of (CNum x # vs) = x # numbers_of vs"
| "numbers_of (v # vs) = numbers_of vs"

fun is_number :: "cellv \<Rightarrow> bool" where
  "is_number (CNum x) = True"
| "is_number v = False"

fun is_str :: "cellv \<Rightarrow> bool" where
  "is_str (CStr s) = True"
| "is_str v = False"

text \<open>\<open>str(x)\<close> of a cell, as \<open>astype(str)\<close> and the join over a row use it.\<close>

fun cell_str :: "(rat \<Rightarrow> string) \<Rightarrow> cellv \<Rightarrow> string" where
  "cell_str num_str CNone = ''nan''"
| "cell_str num_str (CStr s) = s"
| "cell_str num_str (CNum x) = num_str x"

text \<open>
  \<open>any(ch.isdigit() for ch in "".join(str(x) for x in section.loc[j] if pd.notna(x)))\<close>
\<close>

definition row_has_digit :: "(rat \<Rightarrow> string) \<Rightarrow> cellv list \<Rightarrow> bool" where
  "row_has_digit num_str row =
     list_ex is_digit (concat (map (cell_str num_str) (filter (\<lambda>v. v \<noteq> CNone) row)))"

text \<open>
  The inner loop of the group-header branch, from row \<open>j\<close>: it stops at the end of the
  section or at a row with a text label and no digit, and adds up the numbers of the sum
  column on its way.
\<close>

function group_scan ::
  "(rat \<Rightarrow> string) \<Rightarrow> grid \<Rightarrow> nat \<Rightarrow> nat \<Rightarrow> rat \<Rightarrow> py_error + (nat \<times> rat)" where
  "group_scan num_str section sum_col j acc =
     (if j < length section then
        (case cell_at (section ! j) 0 of
           Inl e \<Rightarrow> Inl e
         | Inr cell_j \<Rightarrow>
             if is_str cell_j \<and> \<not> row_has_digit num_str (section ! j) then Inr (j, acc)
             else
               (case cell_at (section ! j) sum_col of
                  Inl e \<Rightarrow> Inl e
                | Inr val_j \<Rightarrow>
                    group_scan num_str section sum_col (Suc j)
                      (if is_number val_j then acc + cell_amount val_j else acc)))
      else Inr (j, acc))"
  by pat_completeness auto
termination
  by (relation "measure (\<lambda>(num_str, section, sum_col, j, acc). length section - j)") auto

declare group_scan.simps [simp del]

text \<open>\<open>result.setdefault(key, 0.0)\<close>\<close>

definition setdefault :: "amounts \<Rightarrow> string \<Rightarrow> rat \<Rightarrow> amounts" where
  "setdefault d key v = (case map_of d key of None \<Rightarrow> AList.update key v d | Some x \<Rightarrow> d)"

definition last_nonzero :: "rat list \<Rightarrow> rat option" where
  "last_nonzero xs =
     (let nz = filter (\<lambda>v. v \<noteq> 0) xs in if nz = [] then None else Some (last nz))"

text \<open>
  One turn of the row-classification loop at row \<open>i\<close> of the section: the next value
  of the cursor and the new result.
\<close>

definition row_step ::
  "(rat \<Rightarrow> string) \<Rightarrow> grid \<Rightarrow> nat \<Rightarrow> nat \<Rightarrow> amounts \<Rightarrow> py_error + (nat \<times> amounts)" where
  "row_step num_str section sum_col i result =
     (case cell_at (section ! i) 0 of
        Inl e \<Rightarrow> Inl e
      | Inr cell_i \<Rightarrow>
          (case cell_i of
             CStr s \<Rightarrow>
               (let header = py_strip s;
                    header_upper = py_upper header;
                    row_nums = numbers_of (tl (section ! i))
                in
                if is_prefix ''ACCOUNTS RECEIVABLE'' header_upper
                   \<and> header_upper \<noteq> ''ACCOUNTS RECEIVABLE''
                then
                  (if row_nums \<noteq> [] then
                     (let val = (case last_nonzero row_nums of None \<Rightarrow> 0 | Some v \<Rightarrow> v);
                          result1 = setdefault result ''ACCOUNTS RECEIVABLE'' 0
                      in Inr (Suc i,
                              AList.update ''ACCOUNTS RECEIVABLE''
                                (dict_get result1 ''ACCOUNTS RECEIVABLE'' + val) result1))
                   else Inr (Suc i, result))
                else if header_upper = ''ACCOUNTS RECEIVABLE''
                then Inr (Suc i, setdefault result ''ACCOUNTS RECEIVABLE'' 0)
                else
                  (case last_nonzero row_nums of
                     Some v \<Rightarrow> Inr (Suc i, AList.update header v result)
                   | None \<Rightarrow>
                       (case group_scan num_str section sum_col (Suc i) 0 of
                          Inl e \<Rightarrow> Inl e
                        | Inr (j, acc) \<Rightarrow> Inr (j, AList.update header acc result))))
           | _ \<Rightarrow> Inr (Suc i, result)))"

text \<open>
  The loop \<open>while i < n\<close>. Nothing in its text bounds the number of turns, so it is a
  partial function: \<open>None\<close> would be a loop that never ends.
\<close>

partial_function (option) classify_rows ::
  "(rat \<Rightarrow> string) \<Rightarrow> grid \<Rightarrow> nat \<Rightarrow> nat \<Rightarrow> amounts \<Rightarrow> (py_error + amounts) option" where
  "classify_rows num_str section sum_col i result =
     (if i < length section then
        (case row_step num_str section sum_col i result of
           Inl e \<Rightarrow> Some (Inl e)
         | Inr (i', result') \<Rightarrow> classify_rows num_str section sum_col i' result')
      else Some (Inr result))"

declare classify_rows.simps [code]

text \<open>
  The sum column: the first column but column 0 with a number in the section, else
  column 1. \<open>ncols\<close> is the number of columns of the sheet.
\<close>

definition find_sum_col :: "nat \<Rightarrow> grid \<Rightarrow> nat" where
  "find_sum_col ncols section =
     (case find (\<lambda>c. list_ex (\<lambda>row. c < length row \<and> is_number (row ! c)) section)
             [1..<ncols] of
        None \<Rightarrow> 1
      | Some c \<Rightarrow> c)"

text \<open>
  \<open>parse_section\<close>: the start row is the first whose column 0 equals the start label,
  the end row the first whose column 0, as text, contains the total label in any letter
  case (the labels passed have no regular-expression operators); the section lies between
  them. Every exception ends in the empty result.
\<close>

definition col0_is :: "string \<Rightarrow> cellv list \<Rightarrow> bool" where
  "col0_is label row = (case row of [] \<Rightarrow> False | v # vs \<Rightarrow> v = CStr label)"

definition col0_contains :: "(rat \<Rightarrow> string) \<Rightarrow> string \<Rightarrow> cellv list \<Rightarrow> bool" where
  "col0_contains num_str label row =
     (case row of
        [] \<Rightarrow> False
      | v # vs \<Rightarrow> v \<noteq> CNone \<and> contains (py_lower label) (py_lower (cell_str num_str v)))"

definition first_index :: "('a \<Rightarrow> bool) \<Rightarrow> 'a list \<Rightarrow> nat option" where
  "first_index P xs = (if list_ex P xs then Some (length (takeWhile (\<lambda>x. \<not> P x) xs)) else None)"

definition parse_section ::
  "(rat \<Rightarrow> string) \<Rightarrow> grid \<Rightarrow> string \<Rightarrow> string \<Rightarrow> amounts option" where
  "parse_section num_str df start_label total_label =
     (case first_index (col0_is start_label) df of
        None \<Rightarrow> Some []
      | Some start_idx \<Rightarrow>
          (case first_index (col0_contains num_str total_label) df of
             None \<Rightarrow> Some []
           | Some end_idx \<Rightarrow>
               (let section = take (end_idx - (start_idx + 1)) (drop (start_idx + 1) df);
                    sum_col = find_sum_col (length (hd df)) section
                in case classify_rows num_str section sum_col 0 [] of
                     None \<Rightarrow> None
                   | Some (Inl e) \<Rightarrow> Some []
                   | Some (Inr result) \<Rightarrow> Some result)))"

section \<open>The budget sheet\<close>

text \<open>
  \<open>pd.to_numeric(x, errors='coerce')\<close>: a number is itself, a missing value is NaN
  (\<open>None\<close> here), a text is parsed by the library's parser, the parameter \<open>parse_num\<close>.
  \<open>sum(skipna=True)\<close> adds what is not NaN.
\<close>

fun to_numeric :: "(string \<Rightarrow> rat option) \<Rightarrow> cellv \<Rightarrow> rat option" where
  "to_numeric parse_num CNone = None"
| "to_numeric parse_num (CStr s) = parse_num s"
| "to_numeric parse_num (CNum x) = Some x"

fun or_zero :: "rat option \<Rightarrow> rat" where
  "or_zero None = 0"
| "or_zero (Some x) = x"

definition nansum :: "rat option list \<Rightarrow> rat" where
  "nansum vs = sum_list (map or_zero vs)"

text \<open>\<open>df.iloc[r, c]\<close> on row \<open>r\<close>: a column out of bounds raises \<open>IndexError\<close>.\<close>

definition iloc :: "cellv list \<Rightarrow> nat \<Rightarrow> py_error + cellv" where
  "iloc row c = (if c < length row then Inr (row ! c) else Inl IndexError)"

definition ncols :: "grid \<Rightarrow> nat" where
  "ncols df = (case df of [] \<Rightarrow> 0 | row # rows \<Rightarrow> length row)"

text \<open>The header row: column 0 is the year, column 2 is \<open>Jan\<close>.\<close>

definition is_budget_header :: "rat \<Rightarrow> cellv list \<Rightarrow> bool" where
  "is_budget_header file_year row \<longleftrightarrow>
     cell_at row 0 = Inr (CNum file_year) \<and> cell_at row 2 = Inr (CStr ''Jan'')"

text \<open>Budget results: label to (month value, YTD value, annual value).\<close>

type_synonym budget_results = "(string \<times> (rat option \<times> rat \<times> rat option)) list"

definition budget_triple ::
  "(string \<Rightarrow> rat option) \<Rightarrow> cellv list \<Rightarrow> nat \<Rightarrow> nat \<Rightarrow> py_error + (rat option \<times> rat \<times> rat option)" where
  "budget_triple parse_num row sel_col total_col =
     (case iloc row sel_col of
        Inl e \<Rightarrow> Inl e
      | Inr month_cell \<Rightarrow>
          (let m_val = to_numeric parse_num month_cell;
               y_val = nansum (map (to_numeric parse_num) (take (sel_col + 1 - 2) (drop 2 row)))
           in case iloc row total_col of
                Inl e \<Rightarrow> Inl e
              | Inr total_cell \<Rightarrow> Inr (m_val, y_val, to_numeric parse_num total_cell)))"

fun budget_loop ::
  "(string \<Rightarrow> rat option) \<Rightarrow> grid \<Rightarrow> nat \<Rightarrow> nat \<Rightarrow> nat list \<Rightarrow> budget_results \<Rightarrow>
   py_error + budget_results" where
  "budget_loop parse_num df sel_col total_col [] results = Inr results"
| "budget_loop parse_num df sel_col total_col (r # rs) results =
     (case iloc (df ! r) 0 of
        Inl e \<Rightarrow> Inl e
      | Inr (CStr raw) \<Rightarrow>
          (case budget_triple parse_num (df ! r) sel_col total_col of
             Inl e \<Rightarrow> Inl e
           | Inr triple \<Rightarrow>
               budget_loop parse_num df sel_col total_col rs
                 (AList.update (py_strip raw) triple results))
      | Inr v \<Rightarrow> budget_loop parse_num df sel_col total_col rs results)"

text \<open>
  The positions that the extraction works with: the header row, the month dictionary
  built by \<open>zip\<close> (a later column wins for a repeated key), the selected column, the
  first and the last row of the run, and the column behind the last month.
\<close>

record budget_layout =
  selected_col :: nat
  annual_col :: nat
  run_start :: nat
  run_end :: nat

definition month_to_col :: "cellv list \<Rightarrow> cellv \<Rightarrow> nat option" where
  "month_to_col months = map_of (rev (zip months [2..<14]))"

definition budget_layout_of :: "rat \<Rightarrow> string \<Rightarrow> grid \<Rightarrow> py_error + budget_layout" where
  "budget_layout_of file_year selected_month df =
     (if ncols df < 3 then Inl KeyError
      else
        (case first_index (is_budget_header file_year) df of
           None \<Rightarrow> Inl IndexError
         | Some hdr \<Rightarrow>
             (let months = take 12 (drop 2 (df ! hdr)) in
              case month_to_col months (CStr selected_month) of
                None \<Rightarrow> Inl KeyError
              | Some sc \<Rightarrow>
                  (case first_index (col0_is ''Rental Revenue'') df of
                     None \<Rightarrow> Inl IndexError
                   | Some start \<Rightarrow>
                       (let end_lbl = (if list_ex (col0_is ''NET PROFIT/(LOSS)'') df
                                       then ''NET PROFIT/(LOSS)''
                                       else ''NET RENTAL INCOME (LOSS)'') in
                        case first_index (col0_is end_lbl) df of
                          None \<Rightarrow> Inl IndexError
                        | Some e \<Rightarrow>
                            (case month_to_col months (last months) of
                               None \<Rightarrow> Inl KeyError
                             | Some c \<Rightarrow>
                                 Inr \<lparr>selected_col = sc, annual_col = c + 1,
                                      run_start = start, run_end = e + 1\<rparr>))))))"

definition budget_extract ::
  "(string \<Rightarrow> rat option) \<Rightarrow> rat \<Rightarrow> string \<Rightarrow> grid \<Rightarrow> py_error + budget_results" where
  "budget_extract parse_num file_year selected_month df =
     (case budget_layout_of file_year selected_month df of
        Inl e \<Rightarrow> Inl e
      | Inr l \<Rightarrow>
          budget_loop parse_num df (selected_col l) (annual_col l) [run_start l..<run_end l] [])"

text \<open>
  The triple in the words of the specification, for a header with the twelve months in
  columns 2 to 13 and the selected month at position \<open>k\<close> of them: the parse of the
  cell of column \<open>2 + k\<close>, the sum of the numeric cells of the columns 2 to \<open>2 + k\<close>,
  the parse of the cell of column 14, one behind December's column 13.
\<close>

definition month_names :: "string list" where
  "month_names = [''Jan'', ''Feb'', ''Mar'', ''Apr'', ''May'', ''Jun'',
                  ''Jul'', ''Aug'', ''Sep'', ''Oct'', ''Nov'', ''Dec'']"

definition spec_triple ::
  "(string \<Rightarrow> rat option) \<Rightarrow> cellv list \<Rightarrow> nat \<Rightarrow> rat option \<times> rat \<times> rat option" where
  "spec_triple parse_num row k =
     (to_numeric parse_num (row ! (2 + k)),
      sum_list (map (\<lambda>c. or_zero (to_numeric parse_num (row ! c))) [2..<3 + k]),
      to_numeric parse_num (row ! 14))"

definition row_label :: "cellv list \<Rightarrow> string option" where
  "row_label row = (case iloc row 0 of Inr (CStr raw) \<Rightarrow> Some (py_strip raw) | _ \<Rightarrow> None)"

text \<open>A budget sheet for concrete runs; one label occurs twice.\<close>

definition example_budget :: grid where
  "example_budget =
    [[CNum 2025, CNone, CStr ''Jan'', CStr ''Feb'', CStr ''Mar'', CStr ''Apr'', CStr ''May'',
      CStr ''Jun'', CStr ''Jul'', CStr ''Aug'', CStr ''Sep'', CStr ''Oct'', CStr ''Nov'',
      CStr ''Dec'', CStr ''Total''],
     [CStr ''Rental Revenue'', CNone, CNum 1, CNum 2, CStr ''n/a'', CNum 4, CNone, CNum 6,
      CNum 7, CNum 8, CNum 9, CNum 10, CNum 11, CNum 12, CNum 78],
     [CNone, CNone, CNum 1, CNum 1, CNum 1, CNum 1, CNum 1, CNum 1,
      CNum 1, CNum 1, CNum 1, CNum 1, CNum 1, CNum 1, CNum 12],
     [CStr '' NET PROFIT/(LOSS)'', CNone, CNum 5, CNum 5, CNum 5, CNum 5, CNum 5, CNum 5,
      CNum 1, CNum 1, CNum 1, CNum 1, CNum 1, CNum 1, CNum 12],
     [CStr ''NET PROFIT/(LOSS)'', CNone, CNum 1, CNum 1, CNum 1, CNum 1, CNum 1, CNum 1,
      CNum 1, CNum 1, CNum 1, CNum 1, CNum 1, CNum 1, CNum 12]]"

section \<open>The budget stage and the prior-year stage of process\_all\_files\<close>

text \<open>
  \<open>a + b\<close> on values that may be NaN, and the merge of two labels of a result
  dictionary: both entries are popped and their sum is stored under the first label.
\<close>

fun nan_add :: "rat option \<Rightarrow> rat option \<Rightarrow> rat option" where
  "nan_add (Some x) (Some y) = Some (x + y)"
| "nan_add a b = None"

definition merge_budget_pair :: "string \<Rightarrow> string \<Rightarrow> budget_results \<Rightarrow> budget_results" where
  "merge_budget_pair k1 k2 results =
     (case (map_of results k1, map_of results k2) of
        (Some (m1, y1, a1), Some (m2, y2, a2)) \<Rightarrow>
          AList.update k1 (nan_add m1 m2, y1 + y2, nan_add a1 a2)
            (AList.delete k2 (AList.delete k1 results))
      | _ \<Rightarrow> results)"

text \<open>
  The budget stage, from the reading of the sheet \<open>Consolidated <year>\<close> to the two
  injected lines. \<open>months.index(selected_month) + 1\<close> counts up to the first header
  cell that equals the selected month.
\<close>

definition budget_stage ::
  "(string \<Rightarrow> rat option) \<Rightarrow> rat \<Rightarrow> string \<Rightarrow> string \<Rightarrow> (string \<times> grid) list \<Rightarrow>
   py_error + budget_results" where
  "budget_stage parse_num file_year year selected_month budget_wb =
     (case map_of budget_wb (''Consolidated '' @ year) of
        None \<Rightarrow> Inl (PyException ''Error reading budget file'')
      | Some df \<Rightarrow>
          (case budget_extract parse_num file_year selected_month df of
             Inl e \<Rightarrow> Inl e
           | Inr results \<Rightarrow>
               (case first_index (is_budget_header file_year) df of
                  None \<Rightarrow> Inl IndexError
                | Some hdr \<Rightarrow>
                    (let months = take 12 (drop 2 (df ! hdr));
                         months_count =
                           of_nat (length (takeWhile (\<lambda>m. m \<noteq> CStr selected_month) months) + 1);
                         results1 = merge_budget_pair ''Mortgage /Loan Interest''
                                      ''Loan Interest (CSIT to Family Mortgage)'' results;
                         results2 = merge_budget_pair ''CP Rail Lease (Laird)''
                                      ''Rent PUD/CSITPM Head Office'' results1;
                         results3 = AList.update ''Amortization''
                                      (Some 26500, 26500 * months_count, Some (26500 * 12)) results2
                     in Inr (AList.update ''Depreciation''
                              (Some 121963, 121963 * months_count, Some (121963 * 12))
                              results3)))))"

text \<open>
  The prior-year stage. \<open>process.extractOne(query, col0)\<close> with the library's default
  scorer is the parameter \<open>extractOne\<close>; unpacking its result raises \<open>TypeError\<close>
  when there is none. The score is left out of the messages.
\<close>

type_synonym last_results = "(string \<times> (rat option \<times> rat option)) list"

definition first_cell :: "cellv list \<Rightarrow> cellv" where
  "first_cell row = (case row of [] \<Rightarrow> CNone | v # vs \<Rightarrow> v)"

definition prior_col0 :: "(rat \<Rightarrow> string) \<Rightarrow> grid \<Rightarrow> py_error + string list" where
  "prior_col0 num_str df_last =
     (if ncols df_last = 0 then Inl KeyError
      else Inr (map (cell_str num_str) (filter (\<lambda>v. v \<noteq> CNone) (map first_cell df_last))))"

fun last_year_loop ::
  "(string \<Rightarrow> rat option) \<Rightarrow> grid \<Rightarrow> nat list \<Rightarrow> last_results \<Rightarrow> py_error + last_results" where
  "last_year_loop parse_num df_last [] last_results = Inr last_results"
| "last_year_loop parse_num df_last (r # rs) last_results =
     (case iloc (df_last ! r) 0 of
        Inl e \<Rightarrow> Inl e
      | Inr (CStr raw) \<Rightarrow>
          (case iloc (df_last ! r) 1 of
             Inl e \<Rightarrow> Inl e
           | Inr c1 \<Rightarrow>
               (case iloc (df_last ! r) 7 of
                  Inl e \<Rightarrow> Inl e
                | Inr c7 \<Rightarrow>
                    last_year_loop parse_num df_last rs
                      (AList.update (py_strip raw)
                         (to_numeric parse_num c1, to_numeric parse_num c7) last_results)))
      | Inr v \<Rightarrow> last_year_loop parse_num df_last rs last_results)"

definition merge_last_pair :: "string \<Rightarrow> string \<Rightarrow> last_results \<Rightarrow> last_results" where
  "merge_last_pair k1 k2 last_results =
     (case (map_of last_results k1, map_of last_results k2) of
        (Some (a1, b1), Some (a2, b2)) \<Rightarrow>
          AList.update k1 (nan_add a1 a2, nan_add b1 b2)
            (AList.delete k2 (AList.delete k1 last_results))
      | _ \<Rightarrow> last_results)"

definition find_end_label :: "extract_one \<Rightarrow> string list \<Rightarrow> py_error + string" where
  "find_end_label extractOne col0 =
     (case extractOne ''NET PROFIT/(LOSS)'' col0 of
        None \<Rightarrow> Inl TypeError
      | Some (end_label, score) \<Rightarrow>
          if score < 95 then
            (case extractOne ''NET RENTAL INCOME (LOSS)'' col0 of
               None \<Rightarrow> Inl TypeError
             | Some (end_label2, score2) \<Rightarrow>
                 if score2 < 95 then Inl (ValueError ''Couldn't find end-label'')
                 else Inr end_label2)
          else Inr end_label)"

definition last_year_stage ::
  "(rat \<Rightarrow> string) \<Rightarrow> (string \<Rightarrow> rat option) \<Rightarrow> extract_one \<Rightarrow> (string \<times> grid) list \<Rightarrow>
   py_error + last_results" where
  "last_year_stage num_str parse_num extractOne last_year_wb =
     (case map_of last_year_wb ''Income_statement'' of
        None \<Rightarrow> Inl (PyException ''Error reading last year's Income_statement'')
      | Some df_last \<Rightarrow>
          (case prior_col0 num_str df_last of
             Inl e \<Rightarrow> Inl e
           | Inr col0 \<Rightarrow>
               (case extractOne ''RENTAL INCOME'' col0 of
                  None \<Rightarrow> Inl TypeError
                | Some (start_label, score) \<Rightarrow>
                    if score < 95 then Inl (ValueError ''Couldn't find RENTAL INCOME'')
                    else
                      (case first_index (col0_is start_label) df_last of
                         None \<Rightarrow> Inl IndexError
                       | Some start_last \<Rightarrow>
                           (case find_end_label extractOne col0 of
                              Inl e \<Rightarrow> Inl e
                            | Inr end_label \<Rightarrow>
                                (case first_index (col0_is end_label) df_last of
                                   None \<Rightarrow> Inl IndexError
                                 | Some e \<Rightarrow>
                                     (case last_year_loop parse_num df_last
                                             [start_last..<e + 1] [] of
                                        Inl err \<Rightarrow> Inl err
                                      | Inr last_results \<Rightarrow>
                                          Inr (merge_last_pair ''CP Rail Lease (Laird)''
                                                 ''Rent PUD/CSITPM Head Office''
                                                 (merge_last_pair ''Mortgage /Loan Interest''
                                                    ''Loan Interest (CSIT to Family Mortgage)''
                                                    last_results)))))))))"

text \<open>
  The two stages in \<open>process_all_files\<close>. The variable \<open>current_stage\<close> is set at the
  start of each; an exception of a stage reaches the handler of the run, which reports
  the stage and returns \<open>False\<close>: the left results, with the stage reported.
\<close>

definition budget_and_last_year ::
  "(rat \<Rightarrow> string) \<Rightarrow> (string \<Rightarrow> rat option) \<Rightarrow> extract_one \<Rightarrow> rat \<Rightarrow> string \<Rightarrow> string \<Rightarrow>
   (string \<times> grid) list \<Rightarrow> (string \<times> grid) list \<Rightarrow>
   (string \<times> py_error) + (budget_results \<times> last_results)" where
  "budget_and_last_year num_str parse_num extractOne file_year year selected_month
       budget_wb last_year_wb =
     (let current_stage = ''Processing budget data'' in
      case budget_stage parse_num file_year year selected_month budget_wb of
        Inl e \<Rightarrow> Inl (current_stage, e)
      | Inr results \<Rightarrow>
          (let current_stage = ''Processing last year's income statement'' in
           case last_year_stage num_str parse_num extractOne last_year_wb of
             Inl e \<Rightarrow> Inl (current_stage, e)
           | Inr last_results \<Rightarrow> Inr (results, last_results)))"

text \<open>A prior-year sheet for concrete runs.\<close>

definition example_last_year :: grid where
  "example_last_year =
     [[CStr ''REVENUE'', CNone, CNone, CNone, CNone, CNone, CNone, CNone],
      [CStr ''RENTAL INCOME'', CNum 10, CNone, CNone, CNone, CNone, CNone, CNum 60],
      [CStr ''NET PROFIT/(LOSS)'', CNum 4, CNone, CNone, CNone, CNone, CNone, CNum 24]]"

text \<open>A matcher for concrete runs: the first candidate, at a score of 40.\<close>

definition example_extract :: extract_one where
  "example_extract q cs = (case cs of [] \<Rightarrow> None | c # rest \<Rightarrow> Some (c, 40))"

section \<open>Shape of a normalized label\<close>

text \<open>
  \<open>single_spaced s\<close>: the only white space of \<open>s\<close> is the blank, and no two blanks are
  neighbours. \<open>good_rep rep\<close>: a replacement text of the rule table is not empty,
  single-spaced, without upper-case letters, and neither starts nor ends with a blank.
\<close>

fun single_spaced :: "string \<Rightarrow> bool" where
  "single_spaced [] = True"
| "single_spaced [c] = (is_space c \<longrightarrow> c = CHR '' '')"
| "single_spaced (c # d # cs) =
     ((is_space c \<longrightarrow> c = CHR '' '' \<and> \<not> is_space d) \<and> single_spaced (d # cs))"

definition good_rep :: "string \<Rightarrow> bool" where
  "good_rep rep \<longleftrightarrow>
     rep \<noteq> [] \<and> \<not> is_space (hd rep) \<and> \<not> is_space (last rep) \<and> single_spaced rep
     \<and> list_all (\<lambda>c. \<not> is_upper c) rep"

text \<open>
  \<open>shaped s\<close>: the text is single-spaced and holds no upper-case letter; every text
  that the rule pass handles has this shape.
\<close>

definition shaped :: "string \<Rightarrow> bool" where
  "shaped s \<longleftrightarrow> single_spaced s \<and> list_all (\<lambda>c. \<not> is_upper c) s"

section \<open>Evaluation of the character classes\<close>

text \<open>
  The classes are stated on character codes; for evaluation the same classes are given
  on the eight bits of a character, lowest first.
\<close>

lemma is_upper_code [code]:
  "is_upper (Char b0 b1 b2 b3 b4 b5 b6 b7) \<longleftrightarrow>
     \<not> b7 \<and> b6 \<and> \<not> b5 \<and> (b0 \<or> b1 \<or> b2 \<or> b3 \<or> b4) \<and> \<not> (b4 \<and> b3 \<and> (b2 \<or> b1 \<and> b0))"
  by (cases b0; cases b1; cases b2; cases b3; cases b4; cases b5; cases b6; cases b7;
      simp add: is_upper_def)

lemma is_lower_code [code]:
  "is_lower (Char b0 b1 b2 b3 b4 b5 b6 b7) \<longleftrightarrow>
     \<not> b7 \<and> b6 \<and> b5 \<and> (b0 \<or> b1 \<or> b2 \<or> b3 \<or> b4) \<and> \<not> (b4 \<and> b3 \<and> (b2 \<or> b1 \<and> b0))"
  by (cases b0; cases b1; cases b2; cases b3; cases b4; cases b5; cases b6; cases b7;
      simp add: is_lower_def)

lemma is_digit_code [code]:
  "is_digit (Char b0 b1 b2 b3 b4 b5 b6 b7) \<longleftrightarrow>
     \<not> b7 \<and> \<not> b6 \<and> b5 \<and> b4 \<and> \<not> (b3 \<and> (b2 \<or> b1))"
  by (cases b0; cases b1; cases b2; cases b3; cases b4; cases b5; cases b6; cases b7;
      simp add: is_digit_def)

lemma is_space_code [code]:
  "is_space (Char b0 b1 b2 b3 b4 b5 b6 b7) \<longleftrightarrow>
     \<not> b7 \<and> \<not> b6 \<and>
     (if b5 then \<not> b4 \<and> \<not> b3 \<and> \<not> b2 \<and> \<not> b1 \<and> \<not> b0
      else if b4 then b3 \<and> b2
      else b3 \<and> (b2 \<or> b1 \<or> b0) \<and> \<not> (b2 \<and> b1))"
  by (cases b0; cases b1; cases b2; cases b3; cases b4; cases b5; cases b6; cases b7;
      simp add: is_space_def)

lemma lower_char_code [code]:
  "lower_char (Char b0 b1 b2 b3 b4 b5 b6 b7) =
     (if is_upper (Char b0 b1 b2 b3 b4 b5 b6 b7) then Char b0 b1 b2 b3 b4 True b6 b7
      else Char b0 b1 b2 b3 b4 b5 b6 b7)"
  by (cases b0; cases b1; cases b2; cases b3; cases b4; cases b5; cases b6; cases b7;
      simp add: lower_char_def is_upper_def char_of_def bit_Suc_0_iff)

lemma upper_char_code [code]:
  "upper_char (Char b0 b1 b2 b3 b4 b5 b6 b7) =
     (if is_lower (Char b0 b1 b2 b3 b4 b5 b6 b7) then Char b0 b1 b2 b3 b4 False b6 b7
      else Char b0 b1 b2 b3 b4 b5 b6 b7)"
  by (cases b0; cases b1; cases b2; cases b3; cases b4; cases b5; cases b6; cases b7;
      simp add: upper_char_def is_lower_def char_of_def bit_Suc_0_iff)

section \<open>Synonym folding of a label with a slash\<close>

text \<open>
  C8. The rule table holds a rule from \<open>amortization/finance cost\<close> to
  \<open>amortization\<close>, but the slash has become a blank before the rules are applied, so
  the rule never matches: the label keeps its words \<open>finance cost\<close> and is not folded
  to \<open>amortization\<close>.
\<close>

theorem normalize_label_amortization_finance_cost:
  "normalize_label ''amortization/finance cost'' = ''amortization finance cost''
   \<and> normalize_label ''amortization/finance cost'' \<noteq> ''amortization''"
  by code_simp

section \<open>Order of the anchors\<close>

lemma fallback_anchor_ge:
  "fallback_anchor num_str ws sentinel first lo = Some r \<Longrightarrow> lo \<le> r"
  by (auto simp: fallback_anchor_def split: option.splits)

text \<open>
  C2, as stated, fails: the header scan takes the first row of each header text,
  whatever the order of the three rows. With the expenses header above the revenue
  header all three anchors are found and \<open>exp_start < rev_start\<close>.
\<close>

theorem find_anchor_rows_counterexample:
  "find_anchor_rows (\<lambda>x. ''0'')
     (sheet_of [[CStr ''Expenses''], [CStr ''Revenue''], [CStr ''Income'']])
   = Inr \<lparr>rev_start = Some 2, exp_start = Some 1, inc_start = Some 3\<rparr>
   \<and> \<not> ((2::nat) < 1)"
  by code_simp

text \<open>
  C2, amended: whenever \<open>find_anchor_rows\<close> returns with all three anchors found, an
  anchor that the header scan did not set, and the fallback located, lies strictly after
  the anchor before it: \<open>rev_start < exp_start\<close> when no expenses header was found by
  the scan, \<open>exp_start < inc_start\<close> when no income header was found by the scan.
\<close>

theorem find_anchor_rows_fallback_order:
  assumes scan: "scan_headers ws [1..<Suc (max_row ws)] no_anchors = Inr s"
    and ret: "find_anchor_rows num_str ws = Inr a"
    and rv: "rev_start a = Some rv" and ex: "exp_start a = Some ex"
    and ic: "inc_start a = Some ic"
  shows "(exp_start s = None \<longrightarrow> rv < ex) \<and> (inc_start s = None \<longrightarrow> ex < ic)"
proof -
  define a1 where "a1 = fallback_rev num_str ws s"
  define a2 where "a2 = fallback_exp num_str ws a1"
  have a: "a = fallback_inc num_str ws a2"
    using scan ret by (simp add: find_anchor_rows_def a1_def a2_def)
  have exp1: "exp_start a1 = exp_start s" and inc1: "inc_start a1 = inc_start s"
    by (simp_all add: a1_def fallback_rev_def)
  have rev2: "rev_start a2 = rev_start a1" and inc2: "inc_start a2 = inc_start a1"
    by (simp_all add: a2_def fallback_exp_def split: option.splits)
  have rev3: "rev_start a = rev_start a2" and exp3: "exp_start a = exp_start a2"
    by (simp_all add: a fallback_inc_def split: option.splits)
  have first: "rv < ex" if "exp_start s = None"
  proof -
    from that exp1 have "exp_start a1 = None" by simp
    moreover have "rev_start a1 = Some rv" using rv rev3 rev2 by simp
    ultimately have "exp_start a2 = fallback_anchor num_str ws ''advertising'' (rv + 1) (rv + 1)"
      by (simp add: a2_def fallback_exp_def)
    with ex exp3 have "rv + 1 \<le> ex" by (simp add: fallback_anchor_ge)
    then show ?thesis by simp
  qed
  have second: "ex < ic" if "inc_start s = None"
  proof -
    from that inc1 inc2 have "inc_start a2 = None" by simp
    moreover have "exp_start a2 = Some ex" using ex exp3 by simp
    ultimately have "inc_start a = fallback_anchor num_str ws ''management fee'' (ex + 1) (ex + 1)"
      by (simp add: a fallback_inc_def)
    with ic have "ex + 1 \<le> ic" by (simp add: fallback_anchor_ge)
    then show ?thesis by simp
  qed
  from first second show ?thesis by blast
qed

theorem find_anchor_rows_fallback_order_witness:
  "scan_headers (sheet_of [[CStr ''Revenue''], [CStr ''Rent''], [CStr ''Advertising''],
        [CStr ''Management Fee'']]) [1..<Suc 4] no_anchors
     = Inr \<lparr>rev_start = Some 1, exp_start = None, inc_start = None\<rparr>
   \<and> find_anchor_rows (\<lambda>x. ''0'') (sheet_of [[CStr ''Revenue''], [CStr ''Rent''],
        [CStr ''Advertising''], [CStr ''Management Fee'']])
     = Inr \<lparr>rev_start = Some 1, exp_start = Some 2, inc_start = Some 3\<rparr>
   \<and> (1::nat) < 2 \<and> (2::nat) < 3"
proof -
  let ?ws = "sheet_of [[CStr ''Revenue''], [CStr ''Rent''], [CStr ''Advertising''],
        [CStr ''Management Fee'']]"
  have mr: "max_row ?ws = 4" by (simp add: sheet_of_def)
  have h1: "scan_headers ?ws [1..<Suc (max_row ?ws)] no_anchors
     = Inr \<lparr>rev_start = Some 1, exp_start = None, inc_start = None\<rparr>"
    by code_simp
  have h2: "find_anchor_rows (\<lambda>x. ''0'') ?ws
     = Inr \<lparr>rev_start = Some 1, exp_start = Some 2, inc_start = Some 3\<rparr>"
    by code_simp
  from find_anchor_rows_fallback_order [OF h1 h2, of 1 2 3] h1 h2 mr
  show ?thesis by simp
qed

section \<open>Accumulation of the income sheet\<close>

lemma band_total_Nil: "band_total num_str ws col [] k = None"
  by (simp add: band_total_def)

lemma band_total_Cons:
  "band_total num_str ws col (r # rows) k =
     (if row_key num_str ws r = k
      then Some (cell_amount (cell_value ws r col) +
                 (case band_total num_str ws col rows k of None \<Rightarrow> 0 | Some t \<Rightarrow> t))
      else band_total num_str ws col rows k)"
  by (simp add: band_total_def Let_def)

lemma add_value_amount:
  "\<not> is_text v \<Longrightarrow> add_value acc v = Inr (acc + cell_amount v)"
  by (cases v) auto

lemma accumulate_amount:
  "\<not> is_text v \<Longrightarrow>
     accumulate d key v = Inr (AList.update key (dict_get d key + cell_amount v) d)"
  by (simp add: accumulate_def add_value_amount)

lemma merged_step:
  assumes "\<And>k. map_of d' k = merged (AList.update k0 (dict_get d k0 + x) d)
              (band_total num_str ws col rows) k"
    and "row_key num_str ws r = k0" and "x = cell_amount (cell_value ws r col)"
  shows "map_of d' k = merged d (band_total num_str ws col (r # rows)) k"
  using assms(1) [of k] assms(2,3)
  by (auto simp: merged_def band_total_Cons update_conv' dict_get_def split: option.splits)

lemma parse_band_sum:
  assumes "\<forall>r\<in>set rows. kept_row num_str ws sentinel r \<longrightarrow> \<not> is_text (cell_value ws r col)"
  shows "\<exists>d'. parse_band num_str ws sentinel col rows d = Inr d' \<and>
           (\<forall>k. map_of d' k =
              merged d (band_total num_str ws col (filter (kept_row num_str ws sentinel) rows)) k)"
  using assms
proof (induction rows arbitrary: d)
  case Nil
  then show ?case by (simp add: merged_def band_total_Nil)
next
  case (Cons r rows)
  show ?case
  proof (cases "kept_row num_str ws sentinel r")
    case False
    then have "parse_band num_str ws sentinel col (r # rows) d
        = parse_band num_str ws sentinel col rows d"
      by (auto simp: kept_row_def split: option.splits)
    with False Cons show ?thesis by simp
  next
    case True
    then obtain lbl where lbl: "label_text num_str (cell_value ws r 1) = Some lbl"
      and ns: "\<not> search_icase sentinel lbl"
      by (auto simp: kept_row_def split: option.splits)
    have key: "row_key num_str ws r = normalize_label lbl"
      using lbl by (simp add: row_key_def)
    from True Cons.prems have nt: "\<not> is_text (cell_value ws r col)" by simp
    let ?d1 = "AList.update (normalize_label lbl)
                 (dict_get d (normalize_label lbl) + cell_amount (cell_value ws r col)) d"
    have step: "parse_band num_str ws sentinel col (r # rows) d
        = parse_band num_str ws sentinel col rows ?d1"
      using lbl ns by (simp add: accumulate_amount [OF nt])
    from Cons.prems have "\<forall>r\<in>set rows. kept_row num_str ws sentinel r
        \<longrightarrow> \<not> is_text (cell_value ws r col)" by simp
    from Cons.IH [OF this, of ?d1] obtain d' where
      ret: "parse_band num_str ws sentinel col rows ?d1 = Inr d'" and
      tot: "\<And>k. map_of d' k = merged ?d1
             (band_total num_str ws col (filter (kept_row num_str ws sentinel) rows)) k"
      by blast
    have "\<And>k. map_of d' k = merged d (band_total num_str ws col
            (r # filter (kept_row num_str ws sentinel) rows)) k"
      by (rule merged_step [OF tot key]) simp
    with ret step True show ?thesis by simp
  qed
qed

lemma parse_income_band_sum:
  assumes "\<forall>r\<in>set (income_rows num_str ws rows). \<not> is_text (cell_value ws r col)"
  shows "\<exists>d'. parse_income_band num_str ws col rows d = Inr d' \<and>
           (\<forall>k. map_of d' k = merged d (band_total num_str ws col (income_rows num_str ws rows)) k)"
  using assms
proof (induction rows arbitrary: d)
  case Nil
  then show ?case by (simp add: merged_def band_total_Nil income_rows_def)
next
  case (Cons r rows)
  show ?case
  proof (cases "income_stop num_str ws r")
    case True
    then have "parse_income_band num_str ws col (r # rows) d = Inr d"
      by (auto simp: income_stop_def split: option.splits)
    moreover from True have "income_rows num_str ws (r # rows) = []"
      by (simp add: income_rows_def)
    ultimately show ?thesis by (simp add: merged_def band_total_Nil)
  next
    case False
    then obtain lbl where lbl: "label_text num_str (cell_value ws r 1) = Some lbl"
      and ns: "\<not> (search_icase ''total'' lbl \<or> search_icase ''net rental income'' lbl)"
      by (auto simp: income_stop_def split: option.splits)
    have key: "row_key num_str ws r = normalize_label lbl"
      using lbl by (simp add: row_key_def)
    from False have rows: "income_rows num_str ws (r # rows) = r # income_rows num_str ws rows"
      by (simp add: income_rows_def)
    with Cons.prems have nt: "\<not> is_text (cell_value ws r col)" by simp
    let ?d1 = "AList.update (normalize_label lbl)
                 (dict_get d (normalize_label lbl) + cell_amount (cell_value ws r col)) d"
    have step: "parse_income_band num_str ws col (r # rows) d
        = parse_income_band num_str ws col rows ?d1"
      using lbl ns by (simp add: accumulate_amount [OF nt])
    from Cons.prems rows have "\<forall>r\<in>set (income_rows num_str ws rows).
        \<not> is_text (cell_value ws r col)" by simp
    from Cons.IH [OF this, of ?d1] obtain d' where
      ret: "parse_income_band num_str ws col rows ?d1 = Inr d'" and
      tot: "\<And>k. map_of d' k = merged ?d1
             (band_total num_str ws col (income_rows num_str ws rows)) k"
      by blast
    have "\<And>k. map_of d' k = merged d (band_total num_str ws col
            (r # income_rows num_str ws rows)) k"
      by (rule merged_step [OF tot key]) simp
    with ret step rows show ?thesis by simp
  qed
qed

lemma merged_empty: "merged [] f = f"
  by (rule ext) (simp add: merged_def dict_get_def split: option.splits)

text \<open>
  C3, amended: for every income sheet in which all three anchors are found and in which
  no row that is read (a kept row of the revenue or of the expenses band, a row of the
  income band before its terminating row) holds a text that is not empty in the value
  column, \<open>parse_income_sheet_ytd\<close> returns without error, and each map holds, under
  every normalized label, the sum of the value cells of the rows read with that label, a
  missing value counting as zero.
\<close>

theorem parse_income_sheet_ytd_accumulates:
  assumes anchors: "find_anchor_rows num_str ws = Inr a"
    and rv: "rev_start a = Some rv" and ex: "exp_start a = Some ex"
    and ic: "inc_start a = Some ic"
    and numeric: "\<forall>r \<in> set (band_rows num_str ws ''total revenue'' rv ex)
                      \<union> set (band_rows num_str ws ''total operating expenses'' ex ic)
                      \<union> set (income_band_rows num_str ws ic).
                    \<not> is_text (cell_value ws r (find_ytd_column ws))"
  shows "\<exists>rev_dict exp_dict inc_dict.
           parse_income_sheet_ytd num_str ws = Inr (rev_dict, exp_dict, inc_dict)
         \<and> map_of rev_dict = band_total num_str ws (find_ytd_column ws)
                                (band_rows num_str ws ''total revenue'' rv ex)
         \<and> map_of exp_dict = band_total num_str ws (find_ytd_column ws)
                                (band_rows num_str ws ''total operating expenses'' ex ic)
         \<and> map_of inc_dict = band_total num_str ws (find_ytd_column ws)
                                (income_band_rows num_str ws ic)"
proof -
  let ?col = "find_ytd_column ws"
  have "\<forall>r\<in>set [rv + 1..<ex]. kept_row num_str ws ''total revenue'' r
          \<longrightarrow> \<not> is_text (cell_value ws r ?col)"
    using numeric by (simp add: band_rows_def)
  from parse_band_sum [OF this, of "[]"] obtain rd where
    rd: "parse_band num_str ws ''total revenue'' ?col [rv + 1..<ex] [] = Inr rd"
    and rdm: "map_of rd = band_total num_str ws ?col (band_rows num_str ws ''total revenue'' rv ex)"
    by (auto simp: merged_empty band_rows_def)
  have "\<forall>r\<in>set [ex + 1..<ic]. kept_row num_str ws ''total operating expenses'' r
          \<longrightarrow> \<not> is_text (cell_value ws r ?col)"
    using numeric by (simp add: band_rows_def)
  from parse_band_sum [OF this, of "[]"] obtain ed where
    ed: "parse_band num_str ws ''total operating expenses'' ?col [ex + 1..<ic] [] = Inr ed"
    and edm: "map_of ed = band_total num_str ws ?col
                (band_rows num_str ws ''total operating expenses'' ex ic)"
    by (auto simp: merged_empty band_rows_def)
  have "\<forall>r\<in>set (income_rows num_str ws [ic + 1..<Suc (max_row ws)]).
          \<not> is_text (cell_value ws r ?col)"
    using numeric by (simp add: income_band_rows_def)
  from parse_income_band_sum [OF this, of "[]"] obtain idd where
    idd: "parse_income_band num_str ws ?col [ic + 1..<Suc (max_row ws)] [] = Inr idd"
    and iddm: "map_of idd = band_total num_str ws ?col (income_band_rows num_str ws ic)"
    by (auto simp: merged_empty income_band_rows_def)
  have "parse_income_sheet_ytd num_str ws = Inr (rd, ed, idd)"
    using rd ed idd by (simp add: parse_income_sheet_ytd_def Let_def anchors rv ex ic)
  with rdm edm iddm show ?thesis by blast
qed


text \<open>
  C3, as stated, fails: the value is added to a number as it is, so a text that is not
  empty in the value column of a row that is read raises a type error.
\<close>

theorem parse_income_sheet_ytd_text_counterexample:
  "find_anchor_rows (\<lambda>x. ''0'')
     (sheet_of [[CStr ''Revenue'', CStr ''YTD''], [CStr ''Rent'', CStr ''n/a''],
                [CStr ''Expenses''], [CStr ''Income'']])
   = Inr \<lparr>rev_start = Some 1, exp_start = Some 3, inc_start = Some 4\<rparr>
   \<and> parse_income_sheet_ytd (\<lambda>x. ''0'')
     (sheet_of [[CStr ''Revenue'', CStr ''YTD''], [CStr ''Rent'', CStr ''n/a''],
                [CStr ''Expenses''], [CStr ''Income'']])
   = Inl TypeError"
  by code_simp

theorem parse_income_sheet_ytd_accumulates_witness:
  "find_anchor_rows (\<lambda>x. ''0'') example_income_sheet
     = Inr \<lparr>rev_start = Some 1, exp_start = Some 5, inc_start = Some 7\<rparr>
   \<and> list_all
        (\<lambda>r. \<not> is_text (cell_value example_income_sheet r (find_ytd_column example_income_sheet)))
        (band_rows (\<lambda>x. ''0'') example_income_sheet ''total revenue'' 1 5
         @ band_rows (\<lambda>x. ''0'') example_income_sheet ''total operating expenses'' 5 7
         @ income_band_rows (\<lambda>x. ''0'') example_income_sheet 7)
   \<and> parse_income_sheet_ytd (\<lambda>x. ''0'') example_income_sheet
     = Inr ([(''rental income'', 15)], [(''advertising'', 0)], [(''management fee'', 7)])
   \<and> (\<exists>rev_dict exp_dict inc_dict.
         parse_income_sheet_ytd (\<lambda>x. ''0'') example_income_sheet
           = Inr (rev_dict, exp_dict, inc_dict)
       \<and> map_of rev_dict = band_total (\<lambda>x. ''0'') example_income_sheet
            (find_ytd_column example_income_sheet)
            (band_rows (\<lambda>x. ''0'') example_income_sheet ''total revenue'' 1 5)
       \<and> map_of exp_dict = band_total (\<lambda>x. ''0'') example_income_sheet
            (find_ytd_column example_income_sheet)
            (band_rows (\<lambda>x. ''0'') example_income_sheet ''total operating expenses'' 5 7)
       \<and> map_of inc_dict = band_total (\<lambda>x. ''0'') example_income_sheet
            (find_ytd_column example_income_sheet)
            (income_band_rows (\<lambda>x. ''0'') example_income_sheet 7))"
proof -
  let ?a = "\<lparr>rev_start = Some 1, exp_start = Some 5, inc_start = Some 7\<rparr>"
  have h1: "find_anchor_rows (\<lambda>x. ''0'') example_income_sheet = Inr ?a"
    by code_simp
  have h2: "list_all
        (\<lambda>r. \<not> is_text (cell_value example_income_sheet r (find_ytd_column example_income_sheet)))
        (band_rows (\<lambda>x. ''0'') example_income_sheet ''total revenue'' 1 5
         @ band_rows (\<lambda>x. ''0'') example_income_sheet ''total operating expenses'' 5 7
         @ income_band_rows (\<lambda>x. ''0'') example_income_sheet 7)"
    by code_simp
  then have h2': "\<forall>r \<in> set (band_rows (\<lambda>x. ''0'') example_income_sheet ''total revenue'' 1 5)
            \<union> set (band_rows (\<lambda>x. ''0'') example_income_sheet ''total operating expenses'' 5 7)
            \<union> set (income_band_rows (\<lambda>x. ''0'') example_income_sheet 7).
          \<not> is_text (cell_value example_income_sheet r (find_ytd_column example_income_sheet))"
    by (auto simp: list_all_iff)
  have h3: "parse_income_sheet_ytd (\<lambda>x. ''0'') example_income_sheet
     = Inr ([(''rental income'', 15)], [(''advertising'', 0)], [(''management fee'', 7)])"
    by code_simp
  have r: "rev_start ?a = Some 1" "exp_start ?a = Some 5" "inc_start ?a = Some 7"
    by simp_all
  from parse_income_sheet_ytd_accumulates [OF h1 r h2'] h1 h2 h3
  show ?thesis by blast
qed

section \<open>Rows that match\_and\_write skips\<close>

lemma set_value_other:
  "(r', c') \<noteq> (r, c) \<Longrightarrow> cell_value (set_value ws r c v) r' c' = cell_value ws r' c'"
  by (auto simp: set_value_def)

lemma set_value_fill [simp]: "cell_fill (set_value ws r c v) = cell_fill ws"
  by (simp add: set_value_def)

lemma set_fill_value [simp]: "cell_value (set_fill ws r c col) = cell_value ws"
  by (simp add: set_fill_def)

lemma set_fill_other:
  "(r', c') \<noteq> (r, c) \<Longrightarrow> cell_fill (set_fill ws r c col) r' c' = cell_fill ws r' c'"
  by (auto simp: set_fill_def)

lemma write_row_frame:
  assumes "write_row extractOne threshold src_dict tc ws r = (e, ws')" and "(r', c') \<noteq> (r, tc)"
  shows "cell_value ws' r' c' = cell_value ws r' c' \<and> cell_fill ws' r' c' = cell_fill ws r' c'"
  using assms
  by (auto simp: write_row_def Let_def set_value_other set_fill_other
      split: sum.splits option.splits if_splits prod.splits)

lemma write_rows_frame:
  assumes "write_rows extractOne threshold src_dict tc rs ws = (e, ws')" and "r' \<notin> set rs"
  shows "cell_value ws' r' c' = cell_value ws r' c' \<and> cell_fill ws' r' c' = cell_fill ws r' c'"
  using assms
proof (induction rs arbitrary: ws)
  case Nil
  then show ?case by simp
next
  case (Cons r rs)
  obtain e1 ws1 where w: "write_row extractOne threshold src_dict tc ws r = (e1, ws1)"
    by (cases "write_row extractOne threshold src_dict tc ws r")
  from Cons.prems have ne: "(r', c') \<noteq> (r, tc)" by auto
  note f = write_row_frame [OF w ne]
  show ?case
  proof (cases e1)
    case None
    with Cons.prems w have "write_rows extractOne threshold src_dict tc rs ws1 = (e, ws')"
      by simp
    from Cons.IH [OF this] Cons.prems f show ?thesis by simp
  next
    case (Some a)
    with Cons.prems w have "ws' = ws1" by simp
    with f show ?thesis by simp
  qed
qed

lemma write_row_skip:
  assumes "stripped_text (cell_value ws r 1) = Inr raw"
    and "normalize_label raw = [] \<or> search_icase ''total'' raw"
  shows "write_row extractOne threshold src_dict tc ws r = (None, ws)"
  using assms by (auto simp: write_row_def Let_def)

lemma write_rows_skip:
  assumes "write_rows extractOne threshold src_dict tc rs ws = (e, ws')"
    and "distinct rs"
    and "stripped_text (cell_value ws r 1) = Inr raw"
    and "normalize_label raw = [] \<or> search_icase ''total'' raw"
  shows "cell_value ws' r tc = cell_value ws r tc \<and> cell_fill ws' r tc = cell_fill ws r tc"
  using assms
proof (induction rs arbitrary: ws)
  case Nil
  then show ?case by simp
next
  case (Cons x rs)
  obtain e1 ws1 where w: "write_row extractOne threshold src_dict tc ws x = (e1, ws1)"
    by (cases "write_row extractOne threshold src_dict tc ws x")
  show ?case
  proof (cases "x = r")
    case True
    with w Cons.prems(3,4) have "e1 = None" "ws1 = ws"
      by (simp_all add: write_row_skip)
    with w Cons.prems(1) have "write_rows extractOne threshold src_dict tc rs ws = (e, ws')"
      by simp
    moreover from True Cons.prems(2) have "r \<notin> set rs" by simp
    ultimately show ?thesis by (rule write_rows_frame)
  next
    case False
    then have ne1: "(r, 1) \<noteq> (x, tc)" and ne2: "(r, tc) \<noteq> (x, tc)" by auto
    from write_row_frame [OF w ne1] Cons.prems(3)
    have lbl: "stripped_text (cell_value ws1 r 1) = Inr raw" by simp
    note f = write_row_frame [OF w ne2]
    show ?thesis
    proof (cases e1)
      case None
      with Cons.prems(1) w have "write_rows extractOne threshold src_dict tc rs ws1 = (e, ws')"
        by simp
      moreover from Cons.prems(2) have "distinct rs" by simp
      ultimately have "cell_value ws' r tc = cell_value ws1 r tc
          \<and> cell_fill ws' r tc = cell_fill ws1 r tc"
        using lbl Cons.prems(4) by (rule Cons.IH)
      with f show ?thesis by simp
    next
      case (Some a)
      with Cons.prems(1) w have "ws' = ws1" by simp
      with f show ?thesis by simp
    qed
  qed
qed

text \<open>
  C4, amended: in \<open>match_and_write\<close>, a row whose raw column-1 text contains
  \<open>total\<close> as a whole word, in any letter case (a match of \<open>\btotal\b\<close>), or whose
  normalized label is blank, is skipped: the value and the fill of its target cell are
  what they were before the call, whether the call returns or raises.
\<close>

theorem match_and_write_skips:
  assumes "match_and_write extractOne threshold ws start_row end_row src_dict target_col = (e, ws')"
    and "stripped_text (cell_value ws r 1) = Inr raw"
    and "normalize_label raw = [] \<or> search_icase ''total'' raw"
  shows "cell_value ws' r target_col = cell_value ws r target_col
       \<and> cell_fill ws' r target_col = cell_fill ws r target_col"
  using assms unfolding match_and_write_def
  by (intro write_rows_skip [where rs = "[start_row..<Suc end_row]"]) simp_all

text \<open>
  C4, as stated, fails: the test is a search for the word \<open>total\<close> between word
  boundaries, not for the substring. \<open>Subtotal\<close> contains the substring and is not
  skipped: with no source entries its target cell is overwritten with 0.
\<close>

theorem match_and_write_subtotal_counterexample:
  "stripped_text (cell_value (sheet_of [[CStr ''Subtotal'', CNum 5]]) 1 1) = Inr ''Subtotal''
   \<and> py_lower ''Subtotal'' = ''sub'' @ ''total''
   \<and> cell_value (sheet_of [[CStr ''Subtotal'', CNum 5]]) 1 2 = CNum 5
   \<and> cell_value (snd (match_and_write (\<lambda>q cs. None) 85
         (sheet_of [[CStr ''Subtotal'', CNum 5]]) 1 1 [] 2)) 1 2 = CNum 0"
  by code_simp

theorem match_and_write_skips_witness:
  "stripped_text (cell_value (sheet_of [[CStr ''Total Revenue'', CNum 5], [CStr ''Rent'', CNum 1],
       [CStr '' - '', CNum 3]]) 1 1) = Inr ''Total Revenue''
   \<and> search_icase ''total'' ''Total Revenue''
   \<and> stripped_text (cell_value (sheet_of [[CStr ''Total Revenue'', CNum 5], [CStr ''Rent'', CNum 1],
       [CStr '' - '', CNum 3]]) 3 1) = Inr ''-''
   \<and> normalize_label ''-'' = []
   \<and> cell_value (snd (match_and_write (\<lambda>q cs. None) 85
        (sheet_of [[CStr ''Total Revenue'', CNum 5], [CStr ''Rent'', CNum 1], [CStr '' - '', CNum 3]])
        1 3 [(''rent'', 7)] 2)) 1 2 = CNum 5
   \<and> cell_value (snd (match_and_write (\<lambda>q cs. None) 85
        (sheet_of [[CStr ''Total Revenue'', CNum 5], [CStr ''Rent'', CNum 1], [CStr '' - '', CNum 3]])
        1 3 [(''rent'', 7)] 2)) 2 2 = CNum 7
   \<and> cell_value (snd (match_and_write (\<lambda>q cs. None) 85
        (sheet_of [[CStr ''Total Revenue'', CNum 5], [CStr ''Rent'', CNum 1], [CStr '' - '', CNum 3]])
        1 3 [(''rent'', 7)] 2)) 3 2 = CNum 3"
proof -
  let ?ws = "sheet_of [[CStr ''Total Revenue'', CNum 5], [CStr ''Rent'', CNum 1],
       [CStr '' - '', CNum 3]]"
  let ?res = "match_and_write (\<lambda>q cs. None) 85 ?ws 1 3 [(''rent'', 7)] 2"
  have run: "?res = (fst ?res, snd ?res)" by simp
  have l1: "stripped_text (cell_value ?ws 1 1) = Inr ''Total Revenue''" by code_simp
  have t1: "search_icase ''total'' ''Total Revenue''" by code_simp
  have l3: "stripped_text (cell_value ?ws 3 1) = Inr ''-''" by code_simp
  have t3: "normalize_label ''-'' = []" by code_simp
  have v1: "cell_value ?ws 1 2 = CNum 5" and v3: "cell_value ?ws 3 2 = CNum 3"
    by code_simp+
  have v2: "cell_value (snd ?res) 2 2 = CNum 7" by code_simp
  from match_and_write_skips [OF run l1] t1 v1
  have r1: "cell_value (snd ?res) 1 2 = CNum 5" by simp
  from match_and_write_skips [OF run l3] t3 v3
  have r3: "cell_value (snd ?res) 3 2 = CNum 3" by simp
  from l1 t1 l3 t3 r1 v2 r3 show ?thesis by blast
qed

section \<open>The colour of a fuzzy match\<close>

lemma py_int_quotient:
  assumes "0 \<le> a" and "0 < b"
  shows "py_int (255 * (of_int a / of_int b)) = (255 * a) div b"
proof -
  have "255 * (of_int a / of_int b :: rat) = of_int (255 * a) / of_int b" by simp
  moreover have "0 \<le> (of_int (255 * a) / of_int b :: rat)" using assms by simp
  ultimately show ?thesis by (simp only: py_int_def if_True floor_divide_of_int_eq)
qed

lemma gradient_fill_green:
  assumes "t < 100" and "t \<le> s"
  shows "gradient_fill s t = Inr (''FF'' @ fmt_02X ((255 * (s - t)) div (100 - t)) @ ''00'')"
proof -
  from assms have "py_int (255 * (of_int (s - t) / of_int (100 - t))) = (255 * (s - t)) div (100 - t)"
    by (intro py_int_quotient) simp_all
  with assms show ?thesis unfolding gradient_fill_def by simp
qed

lemma fmt_02X_length:
  assumes "0 \<le> g" and "g \<le> 255"
  shows "length (fmt_02X g) = 2"
proof (cases "nat g < 16")
  case True
  then show ?thesis using assms by (simp add: fmt_02X_def hex_nat.simps [of "nat g"])
next
  case False
  moreover from assms have "nat g div 16 < 16" by simp
  ultimately show ?thesis using assms
    by (simp add: fmt_02X_def Let_def hex_nat.simps [of "nat g"] hex_nat.simps [of "nat g div 16"])
qed

text \<open>
  Below a threshold of 100 every accepted score gets a colour of six hexadecimal digits:
  red 255, blue 0, and green the integer part of \<open>255 * (s - t) / (100 - t)\<close>; green
  is 0 at the threshold and 255 at a score of 100.
\<close>

lemma gradient_fill_colour:
  assumes "t < 100" and "t \<le> s" and "s \<le> 100"
  shows "\<exists>g. gradient_fill s t = Inr (''FF'' @ fmt_02X g @ ''00'')
           \<and> g = (255 * (s - t)) div (100 - t) \<and> 0 \<le> g \<and> g \<le> 255
           \<and> length (''FF'' @ fmt_02X g @ ''00'') = 6"
proof -
  let ?g = "(255 * (s - t)) div (100 - t)"
  from assms have nonneg: "0 \<le> ?g" by (simp add: pos_imp_zdiv_nonneg_iff)
  from assms have "255 * (s - t) \<le> 255 * (100 - t)" by simp
  with assms have le: "?g \<le> 255"
    by (metis diff_gt_0_iff_gt div_by_1 mult.commute nonzero_mult_div_cancel_left
        order_less_irrefl zdiv_mono1)
  from nonneg le have "length (fmt_02X ?g) = 2" by (rule fmt_02X_length)
  with gradient_fill_green [OF assms(1,2)] nonneg le show ?thesis by simp
qed

lemma gradient_fill_at_threshold: "t < 100 \<Longrightarrow> gradient_fill t t = Inr ''FF0000''"
  by (simp add: gradient_fill_green fmt_02X_def hex_nat.simps [of 0] hex_digit_def)

lemma gradient_fill_at_100: "t < 100 \<Longrightarrow> gradient_fill 100 t = Inr ''FFFF00''"
proof -
  assume t: "t < 100"
  then have "100 - t \<noteq> 0" by simp
  then have "(255 * (100 - t)) div (100 - t) = 255" by (rule nonzero_mult_div_cancel_right)
  with t have "gradient_fill 100 t = Inr (''FF'' @ fmt_02X 255 @ ''00'')"
    by (simp add: gradient_fill_green)
  moreover have "fmt_02X 255 = ''FF''" by code_simp
  ultimately show ?thesis by simp
qed

text \<open>
  C5. The colour formula divides by \<open>100 - threshold\<close>, and the slider lets the
  threshold be 100. Then a fuzzy match of score 100 (the words of a key in another
  order) is accepted, its value is written, and the division raises
  \<open>ZeroDivisionError\<close>: the cell gets no fill and the call does not return.
\<close>

theorem match_and_write_threshold_100:
  "fst (match_and_write (\<lambda>q cs. Some (''rental income'', 100)) 100
         (sheet_of [[CStr ''Income Rental'']]) 1 1 [(''rental income'', 5)] 2)
     = Some ZeroDivisionError
   \<and> cell_value (snd (match_and_write (\<lambda>q cs. Some (''rental income'', 100)) 100
         (sheet_of [[CStr ''Income Rental'']]) 1 1 [(''rental income'', 5)] 2)) 1 2 = CNum 5
   \<and> cell_fill (snd (match_and_write (\<lambda>q cs. Some (''rental income'', 100)) 100
         (sheet_of [[CStr ''Income Rental'']]) 1 1 [(''rental income'', 5)] 2)) 1 2 = None"
  by code_simp

section \<open>Halving for the WESTON site\<close>

lemma set_value_same: "cell_value (set_value ws r c v) r c = v"
  by (simp add: set_value_def)

lemma written_from_trans:
  "written_from d a b \<Longrightarrow> written_from d b c \<Longrightarrow> written_from d a c"
  by (auto simp: written_from_def)

lemma written_from_refl: "written_from d a a"
  by (simp add: written_from_def)

lemma set_value_written:
  "v = CNum 0 \<or> (\<exists>k x. map_of d k = Some x \<and> v = CNum x) \<Longrightarrow>
     written_from d (cell_value ws r' c') (cell_value (set_value ws r c v) r' c')"
  by (cases "(r', c') = (r, c)") (auto simp: written_from_def set_value_other set_value_same)

lemma write_row_values:
  assumes "write_row extractOne threshold d tc ws r = (e, ws')"
  shows "written_from d (cell_value ws r' c') (cell_value ws' r' c')"
  using assms
  by (auto simp: write_row_def Let_def written_from_refl
      intro!: set_value_written
      split: sum.splits option.splits if_splits prod.splits)

lemma write_rows_values:
  assumes "write_rows extractOne threshold d tc rs ws = (e, ws')"
  shows "written_from d (cell_value ws r' c') (cell_value ws' r' c')"
  using assms
proof (induction rs arbitrary: ws)
  case Nil
  then show ?case by (simp add: written_from_refl)
next
  case (Cons r rs)
  obtain e1 ws1 where w: "write_row extractOne threshold d tc ws r = (e1, ws1)"
    by (cases "write_row extractOne threshold d tc ws r")
  note f = write_row_values [OF w, of r' c']
  show ?case
  proof (cases e1)
    case None
    with Cons.prems w have "write_rows extractOne threshold d tc rs ws1 = (e, ws')" by simp
    from Cons.IH [OF this] f show ?thesis by (rule written_from_trans [rotated])
  next
    case (Some a)
    with Cons.prems w have "ws' = ws1" by simp
    with f show ?thesis by simp
  qed
qed

lemma match_and_write_values:
  assumes "match_and_write extractOne threshold ws lo hi d tc = (e, ws')"
  shows "written_from d (cell_value ws r' c') (cell_value ws' r' c')"
  using assms unfolding match_and_write_def by (rule write_rows_values)


lemma halve_lookup:
  "map_of (halve d) k = Some v \<Longrightarrow> \<exists>a. map_of d k = Some a \<and> v = a / 2"
  by (induction d) (auto simp: halve_def split: if_splits)

lemma written_from_halved:
  assumes "written_from (halve d) old new"
    and "d = fst dicts \<or> d = fst (snd dicts) \<or> d = snd (snd dicts)"
  shows "site_cell dicts old new"
  using assms unfolding written_from_def site_cell_def half_of_raw_def
  by (auto dest!: halve_lookup)

lemma site_cell_trans:
  "site_cell dicts a b \<Longrightarrow> site_cell dicts b c \<Longrightarrow> site_cell dicts a c"
  by (auto simp: site_cell_def)

lemma site_cell_refl: "site_cell dicts a a"
  by (simp add: site_cell_def)

lemma write_bands_halved:
  assumes "write_bands extractOne threshold tc r1 r2 r3 (halve rd, halve ed, halve idd) ws = (e, ws')"
  shows "site_cell (rd, ed, idd) (cell_value ws r c) (cell_value ws' r c)"
proof -
  obtain e1 ws1 where m1: "match_and_write extractOne threshold ws (fst r1) (snd r1) (halve rd) tc
      = (e1, ws1)"
    by (cases "match_and_write extractOne threshold ws (fst r1) (snd r1) (halve rd) tc")
  have s1: "site_cell (rd, ed, idd) (cell_value ws r c) (cell_value ws1 r c)"
    by (rule written_from_halved [OF match_and_write_values [OF m1]]) simp
  show ?thesis
  proof (cases e1)
    case (Some a)
    with assms m1 have "ws' = ws1" by (simp add: write_bands_def)
    with s1 show ?thesis by simp
  next
    case None
    obtain e2 ws2 where m2: "match_and_write extractOne threshold ws1 (fst r2) (snd r2) (halve ed) tc
        = (e2, ws2)"
      by (cases "match_and_write extractOne threshold ws1 (fst r2) (snd r2) (halve ed) tc")
    have s2: "site_cell (rd, ed, idd) (cell_value ws1 r c) (cell_value ws2 r c)"
      by (rule written_from_halved [OF match_and_write_values [OF m2]]) simp
    note s12 = site_cell_trans [OF s1 s2]
    show ?thesis
    proof (cases e2)
      case (Some a)
      with assms m1 m2 None have "ws' = ws2" by (simp add: write_bands_def)
      with s12 show ?thesis by simp
    next
      case None2: None
      with assms m1 m2 None
      have m3: "match_and_write extractOne threshold ws2 (fst r3) (snd r3) (halve idd) tc = (e, ws')"
        by (simp add: write_bands_def)
      have "site_cell (rd, ed, idd) (cell_value ws2 r c) (cell_value ws' r c)"
        by (rule written_from_halved [OF match_and_write_values [OF m3]]) simp
      with s12 show ?thesis by (rule site_cell_trans)
    qed
  qed
qed

lemma write_site_halved:
  assumes "contains ''WESTON'' (resolve_site year filename)"
    and "write_site extractOne threshold year filename header_row ranges (rd, ed, idd) ws = (e, ws')"
  shows "site_cell (rd, ed, idd) (cell_value ws r c) (cell_value ws' r c)"
proof (cases "\<exists>tc. \<not> (rd = [] \<and> ed = [] \<and> idd = []) \<and>
    find_target_col ws header_row (resolve_site year filename) [1..<Suc (max_column ws)]
      = Inr (Some tc)")
  case False
  with assms(2) have "ws' = ws"
    by (auto simp: write_site_def Let_def split: if_splits sum.splits option.splits)
  then show ?thesis by (simp add: site_cell_refl)
next
  case True
  then obtain tc where ne: "\<not> (rd = [] \<and> ed = [] \<and> idd = [])"
    and tc: "find_target_col ws header_row (resolve_site year filename)
               [1..<Suc (max_column ws)] = Inr (Some tc)"
    by blast
  obtain r1 r2 r3 where rg: "ranges ws = (r1, r2, r3)" by (cases "ranges ws")
  from assms ne tc rg
  have "write_bands extractOne threshold tc r1 r2 r3 (halve rd, halve ed, halve idd) ws = (e, ws')"
    by (auto simp: write_site_def Let_def halve_weston_def)
  then show ?thesis by (rule write_bands_halved)
qed


lemma weston_header:
  assumes "(fn, h) \<in> set (filename_to_header year)" and "contains ''WESTON'' (py_upper h)"
  shows "h = ''207 Weston''"
proof -
  have "\<not> contains ''WESTON'' (py_upper ''Bedford'')"
    "\<not> contains ''WESTON'' (py_upper ''Scarborough'')"
    "\<not> contains ''WESTON'' (py_upper ''380 Bering'')"
    "\<not> contains ''WESTON'' (py_upper ''Dundas'')"
    "\<not> contains ''WESTON'' (py_upper ''Eastern'')"
    "\<not> contains ''WESTON'' (py_upper ''1 Laird'')"
    "\<not> contains ''WESTON'' (py_upper ''33 Laird'')"
    "\<not> contains ''WESTON'' (py_upper ''Lakeshore'')"
    by code_simp+
  with assms show ?thesis by (auto simp: filename_to_header_def)
qed

lemma weston_entity:
  assumes "contains ''WESTON'' (resolve_site year filename)"
    and "map_of (filename_to_header year) (normalize_filename filename) = Some entity"
  shows "entity = ''207 Weston''"
proof -
  from assms have "contains ''WESTON'' (py_upper entity)"
    by (simp add: resolve_site_def)
  moreover from assms(2) have "(normalize_filename filename, entity) \<in> set (filename_to_header year)"
    by (rule map_of_SomeD)
  ultimately show ?thesis by (rule weston_header [rotated])
qed

lemma entity_cell_trans:
  "entity_cell num_str s a b \<Longrightarrow> entity_cell num_str s b c \<Longrightarrow> entity_cell num_str s a c"
  by (auto simp: entity_cell_def)

lemma write_categories_weston:
  assumes "set d \<subseteq> set (assets s @ liabilities s @ equity s)"
  shows "entity_cell num_str s (cell_value ws r c)
           (cell_value (write_categories num_str ''207 Weston'' tc rbc d ws) r c)"
  using assms
proof (induction d arbitrary: ws)
  case Nil
  then show ?case by (simp add: entity_cell_def)
next
  case (Cons p d)
  obtain category amount where p: "p = (category, amount)" by (cases p)
  from Cons.prems have sub: "set d \<subseteq> set (assets s @ liabilities s @ equity s)" by simp
  show ?case
  proof (cases "map_of rbc category")
    case None
    with p Cons.IH [OF sub] show ?thesis by simp
  next
    case (Some row_idx)
    let ?v = "balance_value num_str ''207 Weston'' amount"
    let ?ws1 = "set_value ws row_idx tc ?v"
    from Cons.prems p have "half_formula num_str s ?v"
      unfolding half_formula_def balance_value_def by auto
    then have "entity_cell num_str s (cell_value ws r c) (cell_value ?ws1 r c)"
      by (cases "(r, c) = (row_idx, tc)")
         (auto simp: entity_cell_def set_value_other set_value_same)
    moreover have "entity_cell num_str s (cell_value ?ws1 r c)
        (cell_value (write_categories num_str ''207 Weston'' tc rbc d ?ws1) r c)"
      by (rule Cons.IH [OF sub])
    ultimately show ?thesis using p Some by (auto intro: entity_cell_trans)
  qed
qed

lemma write_entity_weston:
  "entity_cell num_str s (cell_value ws r c)
     (cell_value (write_entity num_str cbe rbc (''207 Weston'', s) ws) r c)"
proof (cases "map_of cbe ''207 Weston''")
  case None
  then show ?thesis by (simp add: write_entity_def entity_cell_def)
next
  case (Some tc)
  let ?w = "write_categories num_str ''207 Weston'' tc rbc"
  have "entity_cell num_str s (cell_value ws r c) (cell_value (?w (assets s) ws) r c)"
    by (rule write_categories_weston) auto
  moreover have "entity_cell num_str s (cell_value (?w (assets s) ws) r c)
      (cell_value (?w (liabilities s) (?w (assets s) ws)) r c)"
    by (rule write_categories_weston) auto
  moreover have "entity_cell num_str s (cell_value (?w (liabilities s) (?w (assets s) ws)) r c)
      (cell_value (?w (equity s) (?w (liabilities s) (?w (assets s) ws))) r c)"
    by (rule write_categories_weston) auto
  ultimately show ?thesis using Some
    by (auto simp: write_entity_def intro: entity_cell_trans)
qed

text \<open>
  C6. For a source file whose resolved site name contains WESTON, every cell that the
  YTD pass or the month pass leaves changed holds the 0 of a template row without a match
  or half an amount of the maps parsed from the file; and when the file has an entry in
  the alias table, every cell that the balance-sheet pass leaves changed for its entity
  holds the formula \<open>=(amount)/2\<close> over an amount of the file's summary.
\<close>

theorem weston_amounts_halved:
  assumes weston: "contains ''WESTON'' (resolve_site year filename)"
  shows "(find_income_sheet src_wb = Some src_ws \<longrightarrow>
          parse_income_sheet_ytd num_str src_ws = Inr ytd_dicts \<longrightarrow>
          process_one_file_ytd num_str extractOne threshold year src_wb filename master_ws header_row
            = (e1, ws1) \<longrightarrow>
          site_cell ytd_dicts (cell_value master_ws r c) (cell_value ws1 r c))
       \<and> (find_income_sheet src_wb = Some src_ws \<longrightarrow>
          parse_income_sheet_month num_str src_ws = Inr month_dicts \<longrightarrow>
          process_one_file_month num_str extractOne threshold year src_wb filename master_ws header_row
            = (e2, ws2) \<longrightarrow>
          site_cell month_dicts (cell_value master_ws r c) (cell_value ws2 r c))
       \<and> (map_of (filename_to_header year) (normalize_filename filename) = Some entity_label \<longrightarrow>
          entity_cell num_str s (cell_value master_ws_bs r c)
            (cell_value (write_entity num_str col_by_entity row_by_category (entity_label, s)
               master_ws_bs) r c))"
proof (intro conjI impI)
  assume "find_income_sheet src_wb = Some src_ws"
    and "parse_income_sheet_ytd num_str src_ws = Inr ytd_dicts"
    and "process_one_file_ytd num_str extractOne threshold year src_wb filename master_ws header_row
            = (e1, ws1)"
  then have "write_site extractOne threshold year filename header_row ytd_ranges ytd_dicts master_ws
      = (e1, ws1)"
    by (simp add: process_one_file_ytd_def)
  then show "site_cell ytd_dicts (cell_value master_ws r c) (cell_value ws1 r c)"
    by (cases ytd_dicts) (auto intro: write_site_halved [OF weston])
next
  assume "find_income_sheet src_wb = Some src_ws"
    and "parse_income_sheet_month num_str src_ws = Inr month_dicts"
    and "process_one_file_month num_str extractOne threshold year src_wb filename master_ws header_row
            = (e2, ws2)"
  then have "write_site extractOne threshold year filename header_row (month_ranges num_str)
      month_dicts master_ws = (e2, ws2)"
    by (simp add: process_one_file_month_def)
  then show "site_cell month_dicts (cell_value master_ws r c) (cell_value ws2 r c)"
    by (cases month_dicts) (auto intro: write_site_halved [OF weston])
next
  assume "map_of (filename_to_header year) (normalize_filename filename) = Some entity_label"
  with weston have "entity_label = ''207 Weston''" by (rule weston_entity)
  then show "entity_cell num_str s (cell_value master_ws_bs r c)
            (cell_value (write_entity num_str col_by_entity row_by_category (entity_label, s)
               master_ws_bs) r c)"
    by (simp add: write_entity_weston)
qed


theorem weston_amounts_halved_witness:
  "contains ''WESTON'' (resolve_site ''2025'' ''fs2025Weston (1).xlsx'')
   \<and> find_income_sheet [(''Income Statement'', example_income_sheet)] = Some example_income_sheet
   \<and> parse_income_sheet_ytd (\<lambda>x. ''100.0'') example_income_sheet
       = Inr ([(''rental income'', 15)], [(''advertising'', 0)], [(''management fee'', 7)])
   \<and> parse_income_sheet_month (\<lambda>x. ''100.0'') example_income_sheet
       = Inr ([(''rental income'', 15)], [(''advertising'', 0)], [(''management fee'', 7)])
   \<and> map_of (filename_to_header ''2025'') (normalize_filename ''fs2025Weston (1).xlsx'')
       = Some ''207 Weston''
   \<and> cell_value (snd (process_one_file_ytd (\<lambda>x. ''100.0'') (\<lambda>q cs. None) 85 ''2025''
         [(''Income Statement'', example_income_sheet)] ''fs2025Weston (1).xlsx''
         example_template 5)) 6 2 = CNum (15 / 2)
   \<and> half_of_raw ([(''rental income'', 15)], [(''advertising'', 0)], [(''management fee'', 7)])
        (cell_value (snd (process_one_file_ytd (\<lambda>x. ''100.0'') (\<lambda>q cs. None) 85 ''2025''
         [(''Income Statement'', example_income_sheet)] ''fs2025Weston (1).xlsx''
         example_template 5)) 6 2)
   \<and> cell_value (snd (process_one_file_month (\<lambda>x. ''100.0'') (\<lambda>q cs. None) 85 ''2025''
         [(''Income Statement'', example_income_sheet)] ''fs2025Weston (1).xlsx''
         example_template 5)) 54 2 = CNum (15 / 2)
   \<and> half_of_raw ([(''rental income'', 15)], [(''advertising'', 0)], [(''management fee'', 7)])
        (cell_value (snd (process_one_file_month (\<lambda>x. ''100.0'') (\<lambda>q cs. None) 85 ''2025''
         [(''Income Statement'', example_income_sheet)] ''fs2025Weston (1).xlsx''
         example_template 5)) 54 2)
   \<and> cell_value (write_entity (\<lambda>x. ''100.0'') [(''207 Weston'', 2)] [(''CASH'', 7)]
         (''207 Weston'', example_summary) example_template) 7 2 = CStr ''=(100.0)/2''
   \<and> half_formula (\<lambda>x. ''100.0'') example_summary
        (cell_value (write_entity (\<lambda>x. ''100.0'') [(''207 Weston'', 2)] [(''CASH'', 7)]
         (''207 Weston'', example_summary) example_template) 7 2)"
proof -
  let ?ns = "\<lambda>x::rat. ''100.0''"
  let ?ex = "\<lambda>(q::string) (cs::string list). None :: (string \<times> int) option"
  let ?f = "''fs2025Weston (1).xlsx''"
  let ?wb = "[(''Income Statement'', example_income_sheet)]"
  let ?D = "([(''rental income'', 15)], [(''advertising'', 0)], [(''management fee'', 7)])
              :: amounts \<times> amounts \<times> amounts"
  let ?ry = "process_one_file_ytd ?ns ?ex 85 ''2025'' ?wb ?f example_template 5"
  let ?rm = "process_one_file_month ?ns ?ex 85 ''2025'' ?wb ?f example_template 5"
  let ?bs = "write_entity ?ns [(''207 Weston'', 2)] [(''CASH'', 7)]
               (''207 Weston'', example_summary) example_template"
  have w: "contains ''WESTON'' (resolve_site ''2025'' ?f)" by code_simp
  have inc: "contains ''income'' (py_lower ''Income Statement'')" by code_simp
  have fi: "find_income_sheet ?wb = Some example_income_sheet"
    using inc by (simp add: find_income_sheet_def)
  have py: "parse_income_sheet_ytd ?ns example_income_sheet = Inr ?D" by code_simp
  have pm: "parse_income_sheet_month ?ns example_income_sheet = Inr ?D" by code_simp
  have al: "map_of (filename_to_header ''2025'') (normalize_filename ?f) = Some ''207 Weston''"
    by code_simp
  have old: "cell_value example_template 6 2 = CNone" "cell_value example_template 54 2 = CNone"
    "cell_value example_template 7 2 = CNone"
    by (simp_all add: example_template_def)
  have vy: "cell_value (snd ?ry) 6 2 = CNum (15 / 2)" by code_simp
  have vm: "cell_value (snd ?rm) 54 2 = CNum (15 / 2)" by code_simp
  have vb: "cell_value ?bs 7 2 = CStr ''=(100.0)/2''" by code_simp
  have "site_cell ?D (cell_value example_template 6 2) (cell_value (snd ?ry) 6 2)"
    using weston_amounts_halved [OF w, where src_wb = "?wb" and src_ws = example_income_sheet
        and num_str = "?ns" and ytd_dicts = "?D" and extractOne = "?ex" and threshold = 85
        and master_ws = example_template and header_row = 5 and ?e1.0 = "fst ?ry"
        and ?ws1.0 = "snd ?ry" and r = 6 and c = 2] fi py
    by simp
  then have hy: "half_of_raw ?D (cell_value (snd ?ry) 6 2)"
    by (simp add: site_cell_def vy old)
  have "site_cell ?D (cell_value example_template 54 2) (cell_value (snd ?rm) 54 2)"
    using weston_amounts_halved [OF w, where src_wb = "?wb" and src_ws = example_income_sheet
        and num_str = "?ns" and month_dicts = "?D" and extractOne = "?ex" and threshold = 85
        and master_ws = example_template and header_row = 5 and ?e2.0 = "fst ?rm"
        and ?ws2.0 = "snd ?rm" and r = 54 and c = 2] fi pm
    by simp
  then have hm: "half_of_raw ?D (cell_value (snd ?rm) 54 2)"
    by (simp add: site_cell_def vm old)
  have "entity_cell ?ns example_summary (cell_value example_template 7 2) (cell_value ?bs 7 2)"
    using weston_amounts_halved [OF w, where num_str = "?ns" and entity_label = "''207 Weston''"
        and s = example_summary and master_ws_bs = example_template
        and col_by_entity = "[(''207 Weston'', 2)]" and row_by_category = "[(''CASH'', 7)]"
        and r = 7 and c = 2] al
    by simp
  then have hb: "half_formula ?ns example_summary (cell_value ?bs 7 2)"
    by (simp add: entity_cell_def vb old)
  from w fi py pm al vy hy vm hm vb hb show ?thesis by blast
qed

section \<open>Termination of parse\_section\<close>

lemma group_scan_bounds:
  "group_scan num_str sec sum_col j acc = Inr (j', acc') \<Longrightarrow>
     j \<le> j' \<and> j' \<le> max j (length sec)"
proof (induction "length sec - j" arbitrary: j acc rule: less_induct)
  case less
  show ?case
  proof (cases "j < length sec")
    case False
    with less.prems show ?thesis by (simp add: group_scan.simps [of _ _ _ j])
  next
    case True
    with less.prems consider
      (stop) "j' = j"
      | (go) acc2 where "group_scan num_str sec sum_col (Suc j) acc2 = Inr (j', acc')"
      by (subst (asm) group_scan.simps) (auto split: sum.splits if_splits)
    then show ?thesis
    proof cases
      case stop
      then show ?thesis by simp
    next
      case go
      from True have "length sec - Suc j < length sec - j" by simp
      from less.hyps [OF this go] True show ?thesis by simp
    qed
  qed
qed

lemma row_step_advances:
  assumes "i < length sec"
    and "row_step num_str sec sum_col i result = Inr (i', result')"
  shows "i < i' \<and> i' \<le> length sec"
proof -
  have scan: "Suc i \<le> j \<and> j \<le> length sec"
    if "group_scan num_str sec sum_col (Suc i) 0 = Inr (j, acc)" for j acc
    using group_scan_bounds [OF that] assms(1) by auto
  from assms show ?thesis
    by (auto simp: row_step_def Let_def dest!: scan
        split: sum.splits cellv.splits if_splits option.splits prod.splits)
qed

lemma classify_rows_returns:
  "\<exists>out. classify_rows num_str sec sum_col i result = Some out"
proof (induction "length sec - i" arbitrary: i result rule: less_induct)
  case less
  show ?case
  proof (cases "i < length sec")
    case False
    then show ?thesis by (simp add: classify_rows.simps [of _ _ _ i])
  next
    case True
    show ?thesis
    proof (cases "row_step num_str sec sum_col i result")
      case (Inl e)
      with True show ?thesis by (simp add: classify_rows.simps [of _ _ _ i])
    next
      case (Inr p)
      obtain i' result' where p: "p = (i', result')" by (cases p)
      with Inr True have adv: "i < i' \<and> i' \<le> length sec"
        by (auto dest: row_step_advances)
      with True have "length sec - i' < length sec - i" by arith
      from less [OF this] obtain out where
        "classify_rows num_str sec sum_col i' result' = Some out" by blast
      with True Inr p show ?thesis by (simp add: classify_rows.simps [of _ _ _ i])
    qed
  qed
qed

text \<open>
  C10. \<open>parse_section\<close> returns on every grid: its row-classification loop returns
  from every cursor position and every result so far, because each turn at a row
  \<open>i\<close> of the section that does not raise moves the cursor to some \<open>i' > i\<close> within the
  section (the group-header branch moves it to the index \<open>j \<ge> i + 1\<close> where its inner
  loop stopped).
\<close>

theorem parse_section_terminates:
  "(\<exists>result. parse_section num_str df start_label total_label = Some result)
   \<and> (\<exists>out. classify_rows num_str sec sum_col i result = Some out)
   \<and> (i < length sec \<longrightarrow> row_step num_str sec sum_col i result = Inr (i', result')
        \<longrightarrow> i < i' \<and> i' \<le> length sec)"
proof (intro conjI impI)
  show "\<exists>result. parse_section num_str df start_label total_label = Some result"
  proof -
    have "\<exists>r. (case classify_rows num_str sec sc 0 [] of
                  None \<Rightarrow> None | Some (Inl e) \<Rightarrow> Some [] | Some (Inr result) \<Rightarrow> Some result)
               = Some r" for sec sc
      using classify_rows_returns [of num_str sec sc 0 "[]"]
      by (auto split: sum.splits)
    then show ?thesis
      by (auto simp: parse_section_def Let_def split: option.splits)
  qed
  show "\<exists>out. classify_rows num_str sec sum_col i result = Some out"
    by (rule classify_rows_returns)
next
  assume "i < length sec" and "row_step num_str sec sum_col i result = Inr (i', result')"
  then have "i < i' \<and> i' \<le> length sec" by (rule row_step_advances)
  then show "i < i'" and "i' \<le> length sec" by simp_all
qed


theorem parse_section_terminates_witness:
  "(0::nat) < length [[CStr ''Investments'', CNone], [CStr ''fund 1'', CNum 3], [CNone, CNum 4],
                      [CStr ''Other'', CNone]]
   \<and> row_step (\<lambda>x. ''1'') [[CStr ''Investments'', CNone], [CStr ''fund 1'', CNum 3],
          [CNone, CNum 4], [CStr ''Other'', CNone]] 1 0 []
       = Inr (3, [(''Investments'', 7)])
   \<and> (0::nat) < 3
   \<and> (3::nat) \<le> length [[CStr ''Investments'', CNone], [CStr ''fund 1'', CNum 3], [CNone, CNum 4],
                          [CStr ''Other'', CNone]]
   \<and> classify_rows (\<lambda>x. ''1'') [[CStr ''Investments'', CNone], [CStr ''fund 1'', CNum 3],
          [CNone, CNum 4], [CStr ''Other'', CNone]] 1 0 []
       = Some (Inr [(''Investments'', 7), (''Other'', 0)])"
proof -
  let ?sec = "[[CStr ''Investments'', CNone], [CStr ''fund 1'', CNum 3], [CNone, CNum 4],
               [CStr ''Other'', CNone]]"
  have len: "(0::nat) < length ?sec" by simp
  have step: "row_step (\<lambda>x. ''1'') ?sec 1 0 [] = Inr (3, [(''Investments'', 7)])"
    by code_simp
  have run: "classify_rows (\<lambda>x. ''1'') ?sec 1 0 []
      = Some (Inr [(''Investments'', 7), (''Other'', 0)])"
    by code_simp
  from parse_section_terminates [where sec = "?sec" and i = 0 and num_str = "\<lambda>x. ''1''"
      and sum_col = 1 and result = "[]" and i' = 3 and result' = "[(''Investments'', 7)]"]
    len step
  have "(0::nat) < 3 \<and> (3::nat) \<le> length ?sec" by blast
  with len step run show ?thesis by blast
qed

section \<open>Triples of the budget rows\<close>

lemma slice_nth:
  "m + n \<le> length xs \<Longrightarrow> take n (drop m xs) = map ((!) xs) [m..<m + n]"
  by (auto simp: list_eq_iff_nth_eq)

lemma month_cols:
  "\<forall>k\<in>set [0..<12]. month_to_col (map CStr month_names) (CStr (month_names ! k)) = Some (2 + k)"
  by code_simp

lemma last_month_col:
  "month_to_col (map CStr month_names) (last (map CStr month_names)) = Some 13"
  by code_simp

lemma budget_layout_standard:
  assumes lay: "budget_layout_of file_year selected_month df = Inr l"
    and hdr: "first_index (is_budget_header file_year) df = Some hdr"
    and months: "take 12 (drop 2 (df ! hdr)) = map CStr month_names"
    and sel: "selected_month = month_names ! k" and k: "k < 12"
  shows "selected_col l = 2 + k \<and> annual_col l = 14"
proof -
  from k month_cols
  have "month_to_col (map CStr month_names) (CStr (month_names ! k)) = Some (2 + k)"
    by simp
  with lay hdr months sel last_month_col show ?thesis
    by (auto simp: budget_layout_of_def Let_def split: if_splits option.splits)
qed

lemma budget_triple_spec:
  assumes "budget_triple parse_num row (2 + k) 14 = Inr t" and "k < 12"
  shows "t = spec_triple parse_num row k"
proof -
  from assms(1) have len: "14 < length row"
    by (auto simp: budget_triple_def iloc_def Let_def split: sum.splits if_splits)
  with assms(2) have "2 + (k + 1) \<le> length row" by simp
  from slice_nth [OF this]
  have "take (2 + k + 1 - 2) (drop 2 row) = map ((!) row) [2..<3 + k]"
    by (simp add: add.commute add.left_commute numeral_3_eq_3)
  then have "nansum (map (to_numeric parse_num) (take (2 + k + 1 - 2) (drop 2 row)))
      = sum_list (map (\<lambda>c. or_zero (to_numeric parse_num (row ! c))) [2..<3 + k])"
    by (simp add: nansum_def comp_def)
  with assms len show ?thesis
    by (auto simp: budget_triple_def spec_triple_def iloc_def Let_def
        split: sum.splits if_splits)
qed

lemma budget_loop_append:
  "budget_loop parse_num df sc tc (xs @ ys) res0 = Inr res \<Longrightarrow>
     \<exists>mid. budget_loop parse_num df sc tc xs res0 = Inr mid
          \<and> budget_loop parse_num df sc tc ys mid = Inr res"
proof (induction xs arbitrary: res0)
  case Nil
  then show ?case by simp
next
  case (Cons x xs)
  then show ?case
    by (auto split: sum.splits cellv.splits)
qed

lemma budget_loop_other:
  "budget_loop parse_num df sc tc rs res0 = Inr res \<Longrightarrow>
     \<forall>r\<in>set rs. row_label (df ! r) \<noteq> Some key \<Longrightarrow> map_of res key = map_of res0 key"
proof (induction rs arbitrary: res0)
  case Nil
  then show ?case by simp
next
  case (Cons x rs)
  from Cons.prems(2) have rest: "\<forall>r\<in>set rs. row_label (df ! r) \<noteq> Some key"
    and x: "row_label (df ! x) \<noteq> Some key" by simp_all
  show ?case
  proof (cases "iloc (df ! x) 0")
    case (Inl e)
    with Cons.prems(1) show ?thesis by simp
  next
    case (Inr v)
    show ?thesis
    proof (cases v)
      case (CStr raw)
      with Inr Cons.prems(1) obtain t where
        t: "budget_triple parse_num (df ! x) sc tc = Inr t" and
        run: "budget_loop parse_num df sc tc rs (AList.update (py_strip raw) t res0) = Inr res"
        by (auto split: sum.splits)
      from x Inr CStr have "py_strip raw \<noteq> key" by (simp add: row_label_def)
      with Cons.IH [OF run rest] show ?thesis by (simp add: update_conv')
    next
      case CNone
      with Inr Cons.prems(1) Cons.IH [OF _ rest] show ?thesis by simp
    next
      case (CNum y)
      with Inr Cons.prems(1) Cons.IH [OF _ rest] show ?thesis by simp
    qed
  qed
qed

lemma budget_loop_last:
  assumes "budget_loop parse_num df sc tc (xs @ [r]) res0 = Inr res"
    and "row_label (df ! r) = Some key"
  shows "\<exists>t. budget_triple parse_num (df ! r) sc tc = Inr t \<and> map_of res key = Some t"
proof -
  from budget_loop_append [OF assms(1)] obtain mid where
    "budget_loop parse_num df sc tc [r] mid = Inr res" by blast
  with assms(2) show ?thesis
    by (auto simp: row_label_def update_conv' split: sum.splits cellv.splits)
qed

text \<open>
  C7. With the twelve months in the columns 2 to 13 of the header row and the selected
  month at position \<open>k\<close>, every labeled row \<open>r\<close> of the run (from Rental Revenue through
  the end label) is extracted as the triple of the specification: the parse of its cell
  in the selected month's column, the sum of its numeric cells in the columns 2 to that
  column, the parse of its cell in column 14, one behind December's. The dictionary holds
  that triple under the row's label once the loop has passed the row, and at the end
  unless a later row of the run has the same label.
\<close>

theorem budget_triples:
  assumes ret: "budget_extract parse_num file_year selected_month df = Inr results"
    and lay: "budget_layout_of file_year selected_month df = Inr l"
    and hdr: "first_index (is_budget_header file_year) df = Some hdr"
    and months: "take 12 (drop 2 (df ! hdr)) = map CStr month_names"
    and sel: "selected_month = month_names ! k" and k: "k < 12"
    and lo: "run_start l \<le> r" and hi: "r < run_end l"
    and label: "row_label (df ! r) = Some key"
  shows "(\<exists>res. budget_loop parse_num df (selected_col l) (annual_col l) [run_start l..<Suc r] []
                   = Inr res
              \<and> map_of res key = Some (spec_triple parse_num (df ! r) k))
       \<and> ((\<forall>r'. r < r' \<and> r' < run_end l \<longrightarrow> row_label (df ! r') \<noteq> Some key) \<longrightarrow>
            map_of results key = Some (spec_triple parse_num (df ! r) k))"
proof -
  from budget_layout_standard [OF lay hdr months sel k]
  have sc: "selected_col l = 2 + k" and tc: "annual_col l = 14" by simp_all
  from ret lay have run: "budget_loop parse_num df (2 + k) 14 [run_start l..<run_end l] []
      = Inr results"
    by (simp add: budget_extract_def sc tc)
  from lo hi have split: "[run_start l..<run_end l]
      = ([run_start l..<r] @ [r]) @ [Suc r..<run_end l]"
    by (metis append.assoc append_Cons append_Nil le_less_trans less_imp_le_nat upt_add_eq_append
        upt_conv_Cons le_Suc_ex)
  from lo have pre: "[run_start l..<Suc r] = [run_start l..<r] @ [r]" by simp
  from run split obtain mid where
    mid: "budget_loop parse_num df (2 + k) 14 ([run_start l..<r] @ [r]) [] = Inr mid"
    and rest: "budget_loop parse_num df (2 + k) 14 [Suc r..<run_end l] mid = Inr results"
    using budget_loop_append by metis
  from budget_loop_last [OF mid label] obtain t where
    t: "budget_triple parse_num (df ! r) (2 + k) 14 = Inr t" and m: "map_of mid key = Some t"
    by blast
  from budget_triple_spec [OF t k] m
  have mid_key: "map_of mid key = Some (spec_triple parse_num (df ! r) k)" by simp
  have first: "\<exists>res. budget_loop parse_num df (selected_col l) (annual_col l) [run_start l..<Suc r] []
                   = Inr res
              \<and> map_of res key = Some (spec_triple parse_num (df ! r) k)"
    using mid mid_key pre sc tc by auto
  have second: "map_of results key = Some (spec_triple parse_num (df ! r) k)"
    if "\<forall>r'. r < r' \<and> r' < run_end l \<longrightarrow> row_label (df ! r') \<noteq> Some key"
  proof -
    from that have "\<forall>r'\<in>set [Suc r..<run_end l]. row_label (df ! r') \<noteq> Some key" by simp
    from budget_loop_other [OF rest this] mid_key show ?thesis by simp
  qed
  from first second show ?thesis by blast
qed


theorem budget_triples_witness:
  "budget_extract (\<lambda>s. None) 2025 ''Jun'' example_budget
     = Inr [(''Rental Revenue'', Some 6, 13, Some 78), (''NET PROFIT/(LOSS)'', Some 1, 6, Some 12)]
   \<and> budget_layout_of 2025 ''Jun'' example_budget
     = Inr \<lparr>selected_col = 7, annual_col = 14, run_start = 1, run_end = 5\<rparr>
   \<and> first_index (is_budget_header 2025) example_budget = Some 0
   \<and> take 12 (drop 2 (example_budget ! 0)) = map CStr month_names
   \<and> ''Jun'' = month_names ! 5
   \<and> row_label (example_budget ! 1) = Some ''Rental Revenue''
   \<and> list_all (\<lambda>r'. row_label (example_budget ! r') \<noteq> Some ''Rental Revenue'') [2..<5]
   \<and> spec_triple (\<lambda>s. None) (example_budget ! 1) 5 = (Some 6, 13, Some 78)
   \<and> map_of [(''Rental Revenue'', Some 6, 13, Some 78),
              (''NET PROFIT/(LOSS)'', Some 1, 6, Some 12)] ''Rental Revenue''
     = Some (spec_triple (\<lambda>s. None) (example_budget ! 1) 5)
   \<and> (\<exists>res. budget_loop (\<lambda>s. None) example_budget 7 14 [1..<Suc 1] [] = Inr res
          \<and> map_of res ''Rental Revenue'' = Some (spec_triple (\<lambda>s. None) (example_budget ! 1) 5))"
proof -
  let ?P = "\<lambda>s::string. None :: rat option"
  let ?res = "[(''Rental Revenue'', Some 6, 13, Some 78),
               (''NET PROFIT/(LOSS)'', Some 1, 6, Some 12)]"
  let ?l = "\<lparr>selected_col = 7, annual_col = 14, run_start = 1, run_end = 5\<rparr>"
  have ret: "budget_extract ?P 2025 ''Jun'' example_budget = Inr ?res" by code_simp
  have lay: "budget_layout_of 2025 ''Jun'' example_budget = Inr ?l" by code_simp
  have hdr: "first_index (is_budget_header 2025) example_budget = Some 0" by code_simp
  have months: "take 12 (drop 2 (example_budget ! 0)) = map CStr month_names" by code_simp
  have sel: "''Jun'' = month_names ! 5" by code_simp
  have label: "row_label (example_budget ! 1) = Some ''Rental Revenue''" by code_simp
  have later: "list_all (\<lambda>r'. row_label (example_budget ! r') \<noteq> Some ''Rental Revenue'') [2..<5]"
    by code_simp
  have triple: "spec_triple ?P (example_budget ! 1) 5 = (Some 6, 13, Some 78)" by code_simp
  have later': "\<forall>r'. 1 < r' \<and> r' < run_end ?l \<longrightarrow>
      row_label (example_budget ! r') \<noteq> Some ''Rental Revenue''"
  proof (intro allI impI)
    fix r'
    assume "1 < r' \<and> r' < run_end ?l"
    then have "r' \<in> set [2..<5]" by auto
    moreover from later
    have "\<forall>r'\<in>set [2..<5]. row_label (example_budget ! r') \<noteq> Some ''Rental Revenue''"
      unfolding list_all_iff .
    ultimately show "row_label (example_budget ! r') \<noteq> Some ''Rental Revenue''" by blast
  qed
  have lo: "run_start ?l \<le> 1" and hi: "1 < run_end ?l" and k: "(5::nat) < 12" by simp_all
  from budget_triples [OF ret lay hdr months sel k lo hi label] later'
  have "(\<exists>res. budget_loop ?P example_budget 7 14 [1..<Suc 1] [] = Inr res
            \<and> map_of res ''Rental Revenue'' = Some (spec_triple ?P (example_budget ! 1) 5))
      \<and> map_of ?res ''Rental Revenue'' = Some (spec_triple ?P (example_budget ! 1) 5)"
    by simp
  with ret lay hdr months sel label later triple show ?thesis by blast
qed

section \<open>Abort of the prior-year stage\<close>

text \<open>
  C9. Once the budget stage has succeeded and the prior-year sheet is read, a best match
  for RENTAL INCOME below 95, or best matches below 95 for both end labels, end the run
  in its handler with the stage \<open>Processing last year's income statement\<close>: the
  result is the reported stage with an exception, and holds no prior-year values.
\<close>

theorem last_year_income_aborts:
  assumes budget: "budget_stage parse_num file_year year selected_month budget_wb = Inr results"
    and sheet: "map_of last_year_wb ''Income_statement'' = Some df_last"
    and col0: "prior_col0 num_str df_last = Inr col0"
    and low: "(\<exists>l s. extractOne ''RENTAL INCOME'' col0 = Some (l, s) \<and> s < 95)
            \<or> (\<exists>l1 s1 l2 s2. extractOne ''NET PROFIT/(LOSS)'' col0 = Some (l1, s1) \<and> s1 < 95
                  \<and> extractOne ''NET RENTAL INCOME (LOSS)'' col0 = Some (l2, s2) \<and> s2 < 95)"
  shows "\<exists>e. budget_and_last_year num_str parse_num extractOne file_year year selected_month
               budget_wb last_year_wb
             = Inl (''Processing last year's income statement'', e)"
proof -
  have "\<exists>e. last_year_stage num_str parse_num extractOne last_year_wb = Inl e"
    using low
  proof
    assume "\<exists>l s. extractOne ''RENTAL INCOME'' col0 = Some (l, s) \<and> s < 95"
    then show ?thesis by (auto simp: last_year_stage_def sheet col0)
  next
    assume "\<exists>l1 s1 l2 s2. extractOne ''NET PROFIT/(LOSS)'' col0 = Some (l1, s1) \<and> s1 < 95
                  \<and> extractOne ''NET RENTAL INCOME (LOSS)'' col0 = Some (l2, s2) \<and> s2 < 95"
    then have "\<exists>e. find_end_label extractOne col0 = Inl e"
      by (auto simp: find_end_label_def)
    then show ?thesis
      by (auto simp: last_year_stage_def sheet col0 split: option.splits sum.splits)
  qed
  with budget show ?thesis by (auto simp: budget_and_last_year_def)
qed

theorem last_year_income_aborts_witness:
  "budget_stage (\<lambda>s. None) 2025 ''2025'' ''Jun'' [(''Consolidated 2025'', example_budget)]
     = Inr [(''Rental Revenue'', Some 6, 13, Some 78),
            (''NET PROFIT/(LOSS)'', Some 1, 6, Some 12),
            (''Amortization'', Some 26500, 159000, Some 318000),
            (''Depreciation'', Some 121963, 731778, Some 1463556)]
   \<and> map_of [(''Income_statement'', example_last_year)] ''Income_statement''
     = Some example_last_year
   \<and> prior_col0 (\<lambda>x. ''1'') example_last_year
     = Inr [''REVENUE'', ''RENTAL INCOME'', ''NET PROFIT/(LOSS)'']
   \<and> example_extract ''RENTAL INCOME''
        [''REVENUE'', ''RENTAL INCOME'', ''NET PROFIT/(LOSS)''] = Some (''REVENUE'', 40 :: int)
   \<and> (40 :: int) < 95
   \<and> budget_and_last_year (\<lambda>x. ''1'') (\<lambda>s. None) example_extract 2025 ''2025'' ''Jun''
        [(''Consolidated 2025'', example_budget)] [(''Income_statement'', example_last_year)]
     = Inl (''Processing last year's income statement'',
            ValueError ''Couldn't find RENTAL INCOME'')
   \<and> (\<exists>e. budget_and_last_year (\<lambda>x. ''1'') (\<lambda>s. None) example_extract 2025 ''2025''
          ''Jun'' [(''Consolidated 2025'', example_budget)]
          [(''Income_statement'', example_last_year)]
        = Inl (''Processing last year's income statement'', e))"
proof -
  let ?P = "\<lambda>s::string. None :: rat option"
  let ?N = "\<lambda>x::rat. ''1''"
  let ?E = "example_extract"
  let ?res = "[(''Rental Revenue'', Some 6, 13, Some 78),
            (''NET PROFIT/(LOSS)'', Some 1, 6, Some 12),
            (''Amortization'', Some 26500, 159000, Some 318000),
            (''Depreciation'', Some 121963, 731778, Some 1463556)] :: budget_results"
  let ?col0 = "[''REVENUE'', ''RENTAL INCOME'', ''NET PROFIT/(LOSS)'']"
  have budget: "budget_stage ?P 2025 ''2025'' ''Jun'' [(''Consolidated 2025'', example_budget)]
     = Inr ?res" by code_simp
  have sheet: "map_of [(''Income_statement'', example_last_year)] ''Income_statement''
     = Some example_last_year" by simp
  have col0: "prior_col0 ?N example_last_year = Inr ?col0" by code_simp
  have ex: "?E ''RENTAL INCOME'' ?col0 = Some (''REVENUE'', 40)"
    by (simp add: example_extract_def)
  have low: "(\<exists>l s. ?E ''RENTAL INCOME'' ?col0 = Some (l, s) \<and> s < 95)
            \<or> (\<exists>l1 s1 l2 s2. ?E ''NET PROFIT/(LOSS)'' ?col0 = Some (l1, s1) \<and> s1 < 95
                  \<and> ?E ''NET RENTAL INCOME (LOSS)'' ?col0 = Some (l2, s2) \<and> s2 < 95)"
    by (simp add: example_extract_def)
  have run: "budget_and_last_year ?N ?P ?E 2025 ''2025'' ''Jun''
        [(''Consolidated 2025'', example_budget)] [(''Income_statement'', example_last_year)]
     = Inl (''Processing last year's income statement'',
            ValueError ''Couldn't find RENTAL INCOME'')" by code_simp
  from last_year_income_aborts [where extractOne = example_extract and num_str = "?N",
      OF budget sheet col0 low]
  have "\<exists>e. budget_and_last_year ?N ?P ?E 2025 ''2025'' ''Jun''
          [(''Consolidated 2025'', example_budget)] [(''Income_statement'', example_last_year)]
        = Inl (''Processing last year's income statement'', e)" .
  with budget sheet col0 ex run show ?thesis by simp
qed

section \<open>Idempotence of normalize\_label\<close>

lemma synonyms_good: "list_all (\<lambda>r. good_rep (snd r)) synonyms"
  by code_simp

lemma blank_not_upper: "\<not> is_upper CHR '' ''"
  by code_simp

lemma lower_char_not_upper: "\<not> is_upper (lower_char c)"
proof (cases c)
  case (Char b0 b1 b2 b3 b4 b5 b6 b7)
  then show ?thesis by (simp add: lower_char_code is_upper_code)
qed

subsection \<open>Single-spaced texts\<close>

lemma single_spaced_tl: "single_spaced (c # cs) \<Longrightarrow> single_spaced cs"
  by (cases cs) auto

lemma single_spaced_Cons:
  "single_spaced (c # cs) \<longleftrightarrow>
     (is_space c \<longrightarrow> c = CHR '' '' \<and> (cs \<noteq> [] \<longrightarrow> \<not> is_space (hd cs))) \<and> single_spaced cs"
  by (cases cs) auto

lemma single_spaced_suffix: "single_spaced (xs @ ys) \<Longrightarrow> single_spaced ys"
  by (induction xs) (auto dest: single_spaced_tl)

lemma single_spaced_prefix: "single_spaced (xs @ ys) \<Longrightarrow> single_spaced xs"
proof (induction xs)
  case Nil
  then show ?case by simp
next
  case (Cons x xs)
  then show ?case by (cases xs) (auto simp: single_spaced_Cons)
qed

lemma single_spaced_append:
  assumes "single_spaced xs" and "single_spaced ys" and "xs \<noteq> []" and "\<not> is_space (last xs)"
  shows "single_spaced (xs @ ys)"
  using assms
proof (induction xs)
  case Nil
  then show ?case by simp
next
  case (Cons x xs)
  show ?case
  proof (cases xs)
    case Nil
    with Cons.prems show ?thesis by (simp add: single_spaced_Cons)
  next
    case (Cons d ds)
    with Cons.prems Cons.IH show ?thesis by (simp add: single_spaced_Cons)
  qed
qed

lemma collapse_ws_fixed: "single_spaced s \<Longrightarrow> collapse_ws s = s"
proof (induction s rule: collapse_ws.induct)
  case 1
  then show ?case by simp
next
  case (2 c cs)
  show ?case
  proof (cases "is_space c")
    case False
    with 2 show ?thesis by (simp add: single_spaced_Cons)
  next
    case True
    with "2.prems" have c: "c = CHR '' ''" and hd: "cs \<noteq> [] \<longrightarrow> \<not> is_space (hd cs)"
      and rest: "single_spaced cs"
      by (simp_all add: single_spaced_Cons)
    from hd have dw: "dropWhile is_space cs = cs" by (cases cs) auto
    with "2.IH"(1) [OF True] rest have "collapse_ws cs = cs" by simp
    with True c dw show ?thesis by simp
  qed
qed

lemma collapse_ws_first:
  "collapse_ws s \<noteq> [] \<Longrightarrow> is_space (hd (collapse_ws s)) \<Longrightarrow> hd (collapse_ws s) = CHR '' ''"
  by (cases s) (auto split: if_splits)

lemma collapse_ws_single_spaced: "single_spaced (collapse_ws s)"
proof (induction s rule: collapse_ws.induct)
  case 1
  then show ?case by simp
next
  case (2 c cs)
  show ?case
  proof (cases "is_space c")
    case False
    with 2 show ?thesis by (simp add: single_spaced_Cons)
  next
    case True
    let ?r = "dropWhile is_space cs"
    have nsp: "collapse_ws ?r \<noteq> [] \<longrightarrow> \<not> is_space (hd (collapse_ws ?r))"
    proof (cases ?r)
      case Nil
      then have "collapse_ws ?r = collapse_ws []" by (rule arg_cong)
      then show ?thesis by simp
    next
      case (Cons d ds)
      then have "\<not> is_space d" using hd_dropWhile [of is_space cs] by auto
      with Cons show ?thesis by simp
    qed
    with "2.IH"(1) [OF True] True show ?thesis by (simp add: single_spaced_Cons)
  qed
qed


subsection \<open>Substitution keeps the shape\<close>

lemma match_atoms_suffix:
  "match_atoms p prev s = Some (l, rest) \<Longrightarrow> \<exists>pre. s = pre @ rest"
proof (induction p prev s rule: match_atoms.induct)
  case (1 prev s)
  then show ?case by simp
next
  case (2 a as prev)
  then show ?case by simp
next
  case (3 a as prev c cs)
  then show ?case by (auto split: if_splits intro: exI [of _ "c # pre" for pre])
next
  case (4 as prev)
  then show ?case by simp
next
  case (5 as prev c cs)
  show ?case
  proof (cases "is_space c")
    case False
    with 5 show ?thesis by simp
  next
    case True
    with "5.prems" have "match_atoms as (Some (last (c # takeWhile is_space cs)))
        (dropWhile is_space cs) = Some (l, rest)" by simp
    from "5.IH" [OF True this] obtain pre where "dropWhile is_space cs = pre @ rest" by blast
    then have "c # cs = (c # takeWhile is_space cs @ pre) @ rest"
      by (metis append_Cons append_assoc takeWhile_dropWhile_id)
    then show ?thesis by blast
  qed
qed

lemma match_at_suffix:
  "match_at p prev s = Some (l, rest) \<Longrightarrow> \<exists>pre. s = pre @ rest"
  by (auto simp: match_at_def split: option.splits if_splits dest: match_atoms_suffix)

lemma re_sub_chars: "set (re_sub p rep prev s) \<subseteq> set s \<union> set rep"
proof (induction p rep prev s rule: re_sub.induct)
  case (1 p rep prev)
  then show ?case by simp
next
  case (2 p rep prev c cs)
  show ?case
  proof (cases "match_at p prev (c # cs)")
    case None
    with "2.IH"(1) show ?thesis by auto
  next
    case (Some m)
    obtain l rest where m: "m = (l, rest)" by (cases m)
    show ?thesis
    proof (cases "length rest < Suc (length cs)")
      case False
      from "2.IH"(3) [OF Some m [symmetric] False] Some m False show ?thesis by auto
    next
      case True
      from Some m obtain pre where "c # cs = pre @ rest" by (auto dest: match_at_suffix)
      then have "set rest \<subseteq> set (c # cs)" by (metis set_append sup_ge2)
      with "2.IH"(2) [OF Some m [symmetric] True] Some m True show ?thesis
        by auto
    qed
  qed
qed

lemma re_sub_first:
  assumes "rep \<noteq> []" and "\<not> is_space (hd rep)" and "s \<noteq> []" and "\<not> is_space (hd s)"
  shows "re_sub p rep prev s \<noteq> [] \<and> \<not> is_space (hd (re_sub p rep prev s))"
proof -
  from assms(3) obtain c cs where s: "s = c # cs" by (cases s) auto
  with assms show ?thesis
    by (auto split: option.splits)
qed

lemma re_sub_single_spaced:
  "good_rep rep \<Longrightarrow> single_spaced s \<Longrightarrow> single_spaced (re_sub p rep prev s)"
proof (induction p rep prev s rule: re_sub.induct)
  case (1 p rep prev)
  then show ?case by simp
next
  case (2 p rep prev c cs)
  note good = "2.prems"(1)
  from "2.prems"(2) have c: "is_space c \<longrightarrow> c = CHR '' '' \<and> (cs \<noteq> [] \<longrightarrow> \<not> is_space (hd cs))"
    and cs: "single_spaced cs"
    by (simp_all add: single_spaced_Cons)
  have keep: "single_spaced (c # re_sub p rep (Some c) cs)"
    if "single_spaced (re_sub p rep (Some c) cs)"
  proof (cases "cs = []")
    case True
    with c show ?thesis by (simp add: single_spaced_Cons)
  next
    case False
    show ?thesis
    proof (cases "is_space c")
      case sp: True
      with c False have "\<not> is_space (hd cs)" by simp
      with good False have "re_sub p rep (Some c) cs \<noteq> []
          \<and> \<not> is_space (hd (re_sub p rep (Some c) cs))"
        by (intro re_sub_first) (simp_all add: good_rep_def)
      with that c sp show ?thesis by (simp add: single_spaced_Cons)
    next
      case nsp: False
      with that show ?thesis by (simp add: single_spaced_Cons)
    qed
  qed
  show ?case
  proof (cases "match_at p prev (c # cs)")
    case None
    with "2.IH"(1) [OF None good cs] keep show ?thesis by simp
  next
    case (Some m)
    obtain l rest where m: "m = (l, rest)" by (cases m)
    show ?thesis
    proof (cases "length rest < Suc (length cs)")
      case False
      with "2.IH"(3) [OF Some m [symmetric] False good cs] keep Some m show ?thesis by simp
    next
      case True
      from Some m obtain pre where "c # cs = pre @ rest" by (auto dest: match_at_suffix)
      with "2.prems"(2) have "single_spaced rest" by (metis single_spaced_suffix)
      from "2.IH"(2) [OF Some m [symmetric] True good this]
      have "single_spaced (re_sub p rep l rest)" .
      with good have "single_spaced (rep @ re_sub p rep l rest)"
        by (intro single_spaced_append) (simp_all add: good_rep_def)
      with Some m True show ?thesis by simp
    qed
  qed
qed


lemma re_sub_no_upper:
  assumes "good_rep rep" and "list_all (\<lambda>c. \<not> is_upper c) s"
  shows "list_all (\<lambda>c. \<not> is_upper c) (re_sub p rep prev s)"
  using assms re_sub_chars [of p rep prev s]
  by (auto simp: good_rep_def list_all_iff)

lemma apply_rule_shaped: "good_rep (snd r) \<Longrightarrow> shaped s \<Longrightarrow> shaped (apply_rule r s)"
  by (simp add: shaped_def apply_rule_def re_sub_single_spaced re_sub_no_upper)

lemma fold_rules_shaped:
  "list_all (\<lambda>r. good_rep (snd r)) rules \<Longrightarrow> shaped s \<Longrightarrow> shaped (fold apply_rule rules s)"
  by (induction rules arbitrary: s) (auto simp: apply_rule_shaped)

lemma apply_synonyms_shaped: "shaped s \<Longrightarrow> shaped (apply_synonyms s)"
  unfolding apply_synonyms_def by (rule fold_rules_shaped [OF synonyms_good])

subsection \<open>Cleaning and stripping\<close>

lemma collapse_ws_chars: "set (collapse_ws s) \<subseteq> insert CHR '' '' (set s)"
proof (induction s rule: collapse_ws.induct)
  case 1
  then show ?case by simp
next
  case (2 c cs)
  show ?case
  proof (cases "is_space c")
    case True
    from "2.IH"(1) [OF True] set_dropWhileD [of _ is_space cs] True show ?thesis by auto
  next
    case False
    with "2.IH"(2) show ?thesis by auto
  qed
qed

lemma py_strip_decomp: "\<exists>a b. s = a @ py_strip s @ b"
proof -
  let ?t = "dropWhile is_space s"
  have "s = takeWhile is_space s @ ?t" by simp
  moreover have "?t = py_strip s @ rev (takeWhile is_space (rev ?t))"
    unfolding py_strip_def
    by (metis rev_append rev_rev_ident takeWhile_dropWhile_id)
  ultimately show ?thesis by metis
qed

lemma py_strip_chars: "set (py_strip s) \<subseteq> set s"
  by (metis py_strip_decomp set_append sup_ge1 sup_ge2 subset_trans)

lemma py_strip_shaped: "shaped s \<Longrightarrow> shaped (py_strip s)"
proof -
  assume sh: "shaped s"
  obtain a b where d: "s = a @ py_strip s @ b" using py_strip_decomp by blast
  from sh have "single_spaced (a @ py_strip s @ b)" using d by (simp add: shaped_def)
  then have "single_spaced (py_strip s)"
    by (metis single_spaced_prefix single_spaced_suffix)
  moreover from sh py_strip_chars [of s] have "list_all (\<lambda>c. \<not> is_upper c) (py_strip s)"
    by (auto simp: shaped_def list_all_iff)
  ultimately show ?thesis by (simp add: shaped_def)
qed

lemma dropWhile_fixed: "xs = [] \<or> \<not> P (hd xs) \<Longrightarrow> dropWhile P xs = xs"
  by (cases xs) auto

lemma py_strip_idem: "py_strip (py_strip s) = py_strip s"
proof -
  let ?t = "dropWhile is_space s"
  let ?u = "rev (dropWhile is_space (rev ?t))"
  have u: "py_strip s = ?u" by (simp add: py_strip_def)
  have t_hd: "?t = [] \<or> \<not> is_space (hd ?t)" using hd_dropWhile [of is_space s] by blast
  have pre: "?t = ?u @ rev (takeWhile is_space (rev ?t))"
    by (metis rev_append rev_rev_ident takeWhile_dropWhile_id)
  have "?u = [] \<or> \<not> is_space (hd ?u)"
  proof (cases "?u = []")
    case False
    with pre have same: "hd ?t = hd ?u" by (metis hd_append2)
    from False pre have "?t \<noteq> []" by (metis append_is_Nil_conv)
    with t_hd have "\<not> is_space (hd ?t)" by blast
    with same have "\<not> is_space (hd ?u)" by metis
    then show ?thesis by blast
  qed blast
  then have front: "dropWhile is_space ?u = ?u" by (rule dropWhile_fixed)
  have "dropWhile is_space (rev ?u) = rev ?u"
    by (simp add: dropWhile_idem)
  with front show ?thesis by (simp add: py_strip_def)
qed

lemma sub_punct_fixed: "\<not> list_ex is_punct s \<Longrightarrow> sub_punct s = s"
  by (induction s) (auto simp: sub_punct_def)

lemma py_lower_fixed: "list_all (\<lambda>c. \<not> is_upper c) s \<Longrightarrow> py_lower s = s"
  by (induction s) (auto simp: py_lower_def lower_char_def)

lemma clean_label_shaped: "shaped (clean_label x)"
proof -
  have "\<not> is_upper c" if "c \<in> set (clean_label x)" for c
  proof -
    from that collapse_ws_chars have "c = CHR '' '' \<or> c \<in> set (sub_punct (py_strip (py_lower x)))"
      unfolding clean_label_def by blast
    then have "c = CHR '' '' \<or> c \<in> set (py_strip (py_lower x))"
      by (auto simp: sub_punct_def split: if_splits)
    with py_strip_chars have "c = CHR '' '' \<or> c \<in> set (py_lower x)" by blast
    then show ?thesis
      by (auto simp: py_lower_def blank_not_upper lower_char_not_upper)
  qed
  then show ?thesis
    by (simp add: shaped_def clean_label_def collapse_ws_single_spaced list_all_iff)
qed

lemma normalize_label_shaped: "shaped (normalize_label x)"
  by (simp add: normalize_label_def shaped_def
      py_strip_shaped [OF apply_synonyms_shaped [OF clean_label_shaped], unfolded shaped_def])

text \<open>
  C1, as stated, fails: the rules are applied once, in the order of the table, and the
  rule for \<open>retail rental income\<close> comes before the rule that rewrites
  \<open>rental revenue\<close>. So \<open>Retail Rental Revenue\<close> normalizes to
  \<open>retail rental income\<close>, which a second normalization turns into \<open>rental income\<close>.
\<close>

theorem normalize_label_idempotence_counterexample:
  "normalize_label ''Retail Rental Revenue'' = ''retail rental income''
   \<and> normalize_label (normalize_label ''Retail Rental Revenue'') = ''rental income''
   \<and> normalize_label (normalize_label ''Retail Rental Revenue'')
       \<noteq> normalize_label ''Retail Rental Revenue''"
  by code_simp

text \<open>
  C1, amended: normalizing a normalized label returns it unchanged whenever the
  normalized label holds none of the punctuation characters that normalization turns
  into blanks and the ordered rule pass leaves it unchanged. Lower-casing, stripping,
  the punctuation step and the white-space step never change a normalized label; only
  the rule pass and a slash brought in by a replacement text can.
\<close>

theorem normalize_label_idempotent_when_stable:
  assumes "\<not> list_ex is_punct (normalize_label x)"
    and "apply_synonyms (normalize_label x) = normalize_label x"
  shows "normalize_label (normalize_label x) = normalize_label x"
proof (cases "normalize_label x = []")
  case True
  then show ?thesis by (simp add: normalize_label_def)
next
  case False
  let ?y = "normalize_label x"
  from False have y: "?y = py_strip (apply_synonyms (clean_label x))"
    by (simp add: normalize_label_def split: if_splits)
  then have strip: "py_strip ?y = ?y" by (metis py_strip_idem)
  from normalize_label_shaped [of x] have sp: "single_spaced ?y"
    and lo: "list_all (\<lambda>c. \<not> is_upper c) ?y"
    by (simp_all add: shaped_def)
  have "clean_label ?y = ?y"
    by (simp add: clean_label_def py_lower_fixed [OF lo] strip sub_punct_fixed [OF assms(1)]
        collapse_ws_fixed [OF sp])
  with False assms(2) strip show ?thesis
    by (simp add: normalize_label_def [of ?y])
qed

text \<open>
  The amended statement at \<open>Industrial Rent\<close>, whose normalized label is
  \<open>rental income\<close>.
\<close>

theorem normalize_label_idempotent_when_stable_witness:
  "\<not> list_ex is_punct (normalize_label ''Industrial Rent'')
   \<and> apply_synonyms (normalize_label ''Industrial Rent'') = normalize_label ''Industrial Rent''
   \<and> normalize_label ''Industrial Rent'' = ''rental income''
   \<and> normalize_label (normalize_label ''Industrial Rent'') = normalize_label ''Industrial Rent''"
proof -
  have h1: "\<not> list_ex is_punct (normalize_label ''Industrial Rent'')" by code_simp
  have h2: "apply_synonyms (normalize_label ''Industrial Rent'') = normalize_label ''Industrial Rent''"
    by code_simp
  have h3: "normalize_label ''Industrial Rent'' = ''rental income''" by code_simp
  from normalize_label_idempotent_when_stable [OF h1 h2] h1 h2 h3 show ?thesis by blast
qed

end
